theory Spec2Isabelle
  imports Complex_Main
begin

section \<open>JavaScript values\<close>

text \<open>
  The handlers receive parsed JSON (request bodies, the reCAPTCHA reply, the rows of
  the database functions) and inspect it with \<^verbatim>\<open>typeof\<close>, truthiness tests, strict
  equality and property reads. The values are modelled as they are at run time, not as
  the TypeScript casts declare them.

  A JavaScript number is a double: a finite double is the rational it denotes, and the
  comparison \<^verbatim>\<open><\<close> on finite doubles is the comparison of these rationals.
\<close>

datatype jsnum = Fin rat | PosInf | NegInf | NaN

fun js_lt :: "jsnum \<Rightarrow> jsnum \<Rightarrow> bool" where
  "js_lt (Fin a) (Fin b) = (a < b)"
| "js_lt (Fin a) PosInf = True"
| "js_lt NegInf (Fin b) = True"
| "js_lt NegInf PosInf = True"
| "js_lt _ _ = False"

text \<open>
  A JavaScript string is a sequence of UTF-16 code units, each a number below 65536; its
  \<^verbatim>\<open>length\<close> counts code units. The keys, codes and reasons the program names are ASCII literals:
  \<open>str\<close> gives the code units of such a literal.
\<close>

type_synonym jstring = "nat list"

definition str :: "string \<Rightarrow> jstring" where
  "str s = map of_char s"

datatype json =
    JNull
  | JBool bool
  | JNum jsnum
  | JStr jstring
  | JArr "json list"
  | JObj "(jstring \<times> json) list"

abbreviation JS :: "string \<Rightarrow> json" where
  "JS s \<equiv> JStr (str s)"

text \<open>A value that may be \<^verbatim>\<open>undefined\<close> is a \<open>json option\<close>; \<open>None\<close> is \<^verbatim>\<open>undefined\<close>.\<close>

fun truthy :: "json \<Rightarrow> bool" where
  "truthy JNull = False"
| "truthy (JBool b) = b"
| "truthy (JNum n) = (n \<noteq> NaN \<and> n \<noteq> Fin 0)"
| "truthy (JStr s) = (s \<noteq> [])"
| "truthy (JArr xs) = True"
| "truthy (JObj kvs) = True"

fun truthy_opt :: "json option \<Rightarrow> bool" where
  "truthy_opt None = False"
| "truthy_opt (Some v) = truthy v"

text \<open>
  \<open>js_get v k\<close> is the read \<^verbatim>\<open>v.k\<close> or \<^verbatim>\<open>v?.k\<close> on a value that is not \<^verbatim>\<open>undefined\<close>, for
  the keys the program reads (literals, none of them a built-in property of strings,
  numbers, booleans or arrays, so only an object can hold one; \<^verbatim>\<open>null\<close> holds none, and
  the plain read \<^verbatim>\<open>null.k\<close>, which throws, is \<open>js_member\<close> below).
\<close>

fun js_get :: "json \<Rightarrow> string \<Rightarrow> json option" where
  "js_get (JObj kvs) k = map_of kvs (str k)"
| "js_get _ k = None"

text \<open>\<open>nullish v\<close>: the value is \<^verbatim>\<open>undefined\<close> or \<^verbatim>\<open>null\<close>.\<close>

fun nullish :: "json option \<Rightarrow> bool" where
  "nullish None = True"
| "nullish (Some JNull) = True"
| "nullish (Some _) = False"

text \<open>\<open>js_opt_get v k\<close> is the optional read \<^verbatim>\<open>v?.k\<close>.\<close>

fun js_opt_get :: "json option \<Rightarrow> string \<Rightarrow> json option" where
  "js_opt_get None k = None"
| "js_opt_get (Some v) k = js_get v k"

text \<open>
  Thrown values. \<open>AbortError\<close> is the rejection of an aborted \<^verbatim>\<open>fetch\<close>
  (\<^verbatim>\<open>e.name === "AbortError"\<close>); \<open>TypeError\<close> is the engine's error for a property read on
  \<^verbatim>\<open>undefined\<close>/\<^verbatim>\<open>null\<close> or a call of a missing method; \<open>MissingPayload\<close>,
  \<open>UnknownResultCode\<close> and \<open>TemplateNotFound\<close> are the three \<^verbatim>\<open>new Error(...)\<close> of
  mailer.ts; \<open>External\<close> is any error raised inside a library or a remote service
  (network, JSON syntax, QR encoder, template engine, SMTP, database), tagged with its
  origin.
\<close>

datatype exn =
    AbortError
  | TypeError
  | MissingPayload
  | UnknownResultCode "json option"
  | TemplateNotFound string
  | External string

text \<open>\<open>js_member v k\<close> is the plain read \<^verbatim>\<open>v.k\<close>, which throws on \<^verbatim>\<open>undefined\<close> and \<^verbatim>\<open>null\<close>.\<close>

fun js_member :: "json option \<Rightarrow> string \<Rightarrow> exn + json option" where
  "js_member None k = Inl TypeError"
| "js_member (Some JNull) k = Inl TypeError"
| "js_member (Some v) k = Inr (js_get v k)"

text \<open>
  \<^verbatim>\<open>String.prototype.trim\<close> removes white space and line terminators from both ends:
  U+0009 to U+000D, U+0020, U+00A0, U+1680, U+2000 to U+200A, U+2028, U+2029, U+202F,
  U+205F, U+3000 and U+FEFF.
\<close>

definition js_whitespace :: "nat \<Rightarrow> bool" where
  "js_whitespace c =
     (c \<in> set [0x09, 0x0A, 0x0B, 0x0C, 0x0D, 0x20, 0xA0, 0x1680, 0x2028, 0x2029, 0x202F,
                0x205F, 0x3000, 0xFEFF]
      \<or> (0x2000 \<le> c \<and> c \<le> 0x200A))"

definition js_trim :: "jstring \<Rightarrow> jstring" where
  "js_trim s = rev (dropWhile js_whitespace (rev (dropWhile js_whitespace s)))"

text \<open>\<^verbatim>\<open>s.split(",")\<close>\<close>

fun split_comma :: "jstring \<Rightarrow> jstring list" where
  "split_comma [] = [[]]"
| "split_comma (c # cs) =
     (if c = of_char CHR '','' then [] # split_comma cs
      else (case split_comma cs of
              [] \<Rightarrow> [[c]]
            | w # ws \<Rightarrow> (c # w) # ws))"

text \<open>\<^verbatim>\<open>process.env.X || ""\<close>\<close>

fun or_empty :: "jstring option \<Rightarrow> jstring" where
  "or_empty None = []"
| "or_empty (Some s) = s"


section \<open>Effects\<close>

text \<open>
  Every call that leaves the process is an event of the request's trace, in the order
  the handler makes them: the POST to the reCAPTCHA endpoint (with the token, the
  \<^verbatim>\<open>remoteip\<close> parameter when it is sent, and the delay in milliseconds of the timer that
  aborts the call), the three database functions, and \<^verbatim>\<open>transporter.sendMail\<close>.
\<close>

text \<open>
  The subject line of a mail is chosen by the \<^verbatim>\<open>switch\<close> of mailer.ts among three
  texts: confirmation of a reservation, reservation on the waiting list, cancellation
  (each followed by the public code). \<open>mail_html\<close> and \<open>mail_text\<close> are the names of the
  two template files, as the program writes them; \<open>mail_qr\<close> says whether the QR code
  is attached.
\<close>

datatype subject = SubjectConfirmation | SubjectPending | SubjectCancellation

record mail =
  mail_to :: "json option"
  mail_subject :: "subject option"
  mail_html :: string
  mail_text :: string
  mail_qr :: bool

text \<open>
  The argument of \<^verbatim>\<open>create_reservation_from_json\<close>: the \<^verbatim>\<open>user\<close> part of the payload.
  (The \<^verbatim>\<open>performance\<close> part and the provenance fields are \<^verbatim>\<open>String(...)\<close> and
  \<^verbatim>\<open>|| null\<close> of body fields, passed through unchecked; they are left out.)
\<close>

record payload_user =
  u_name :: jstring
  u_surname :: jstring
  u_phone :: jstring
  u_email :: jstring

datatype event =
    SiteverifyFetch "json option" "jstring option" nat
  | QueryCreate payload_user
  | QueryConfirm jstring
  | QueryCancel jstring
  | SendMail mail


section \<open>recaptcha.ts\<close>

text \<open>
  \<^verbatim>\<open>process.env\<close>, as far as the program reads it. \<open>env_min_score\<close> is
  \<^verbatim>\<open>Number(process.env.RECAPTCHA_MIN_SCORE)\<close> when the variable is set.
\<close>

record env =
  env_secret_key :: "jstring option"
  env_min_score :: "jsnum option"
  env_expected_action :: "jstring option"
  env_allowed_hostnames :: "jstring option"

definition RECAPTCHA_SECRET :: "env \<Rightarrow> jstring" where
  "RECAPTCHA_SECRET e = or_empty (env_secret_key e)"

definition RECAPTCHA_MIN_SCORE :: "env \<Rightarrow> jsnum" where
  "RECAPTCHA_MIN_SCORE e = (case env_min_score e of None \<Rightarrow> Fin (1 / 2) | Some n \<Rightarrow> n)"

definition RECAPTCHA_EXPECTED_ACTION :: "env \<Rightarrow> jstring" where
  "RECAPTCHA_EXPECTED_ACTION e = js_trim (or_empty (env_expected_action e))"

definition RECAPTCHA_ALLOWED_HOSTNAMES :: "env \<Rightarrow> jstring list" where
  "RECAPTCHA_ALLOWED_HOSTNAMES e =
     filter (\<lambda>s. s \<noteq> []) (map js_trim (split_comma (or_empty (env_allowed_hostnames e))))"

text \<open>
  \<^verbatim>\<open>VerifyOptions\<close>. An omitted \<^verbatim>\<open>opts\<close> is the record of three \<open>None\<close>: the function
  reads it only through \<^verbatim>\<open>opts?.x\<close>. The route passes \<^verbatim>\<open>expectedAction\<close> from the request
  body through an unchecked cast, so it is a JSON value here.
\<close>

record VerifyOptions =
  remoteip :: "jstring option"
  expectedAction :: "json option"
  timeoutMs :: "jsnum option"

record extras =
  x_score :: "jsnum option"
  x_action :: "jstring option"
  x_hostname :: "jstring option"

datatype RecaptchaVerifyResult =
    VerifyOk extras
  | VerifyFail "json list" extras

definition no_extras :: extras where
  "no_extras = \<lparr>x_score = None, x_action = None, x_hostname = None\<rparr>"

text \<open>
  The network, seen from one call: \<open>net_latency\<close> is the time in milliseconds after which
  \<^verbatim>\<open>fetch\<close> and \<^verbatim>\<open>resp.json()\<close> together settle (\<open>None\<close>: they never do), \<open>net_reply\<close> is
  what they settle with.

  \<^verbatim>\<open>setTimeout(f, after)\<close> of the runtime (Node.js): a delay that is not a number from 1
  to 2147483647 (it is below 1, above the largest 32-bit signed integer, infinite, or
  not a number) is set to 1, and the timer counts whole milliseconds. \<open>timer_delay\<close> is
  the number of milliseconds after which the timer fires.

  \<^verbatim>\<open>setTimeout(() => ac.abort(), timeoutMs)\<close> with \<^verbatim>\<open>signal: ac.signal\<close>: a call that has
  not settled when the timer fires is aborted, and the awaited promise rejects with
  \<open>AbortError\<close> at that moment. \<open>timed_fetch\<close> takes the delay of the timer and gives the
  outcome and the time at which the \<^verbatim>\<open>try\<close> block is left.
\<close>

definition TIMEOUT_MAX :: rat where
  "TIMEOUT_MAX = 2147483647"

fun timer_delay :: "jsnum \<Rightarrow> nat" where
  "timer_delay (Fin after) =
     (if 1 \<le> after \<and> after \<le> TIMEOUT_MAX then nat \<lfloor>after\<rfloor> else 1)"
| "timer_delay _ = 1"

record net =
  net_latency :: "nat option"
  net_reply :: "exn + json"

definition timed_fetch :: "nat \<Rightarrow> net \<Rightarrow> (exn + json) \<times> nat" where
  "timed_fetch delay n =
     (case net_latency n of
        None \<Rightarrow> (Inl AbortError, delay)
      | Some d \<Rightarrow> if d < delay then (net_reply n, d) else (Inl AbortError, delay))"

text \<open>
  Lines 91-98: the fields of the reply, read with \<^verbatim>\<open>json?.x\<close> (so a \<^verbatim>\<open>null\<close> reply has
  none) and each kept only at its expected type.
\<close>

definition reply_success :: "json \<Rightarrow> bool" where
  "reply_success j = truthy_opt (js_get j ''success'')"

definition reply_score :: "json \<Rightarrow> jsnum option" where
  "reply_score j = (case js_get j ''score'' of Some (JNum n) \<Rightarrow> Some n | _ \<Rightarrow> None)"

definition reply_action :: "json \<Rightarrow> jstring option" where
  "reply_action j = (case js_get j ''action'' of Some (JStr s) \<Rightarrow> Some s | _ \<Rightarrow> None)"

definition reply_hostname :: "json \<Rightarrow> jstring option" where
  "reply_hostname j = (case js_get j ''hostname'' of Some (JStr s) \<Rightarrow> Some s | _ \<Rightarrow> None)"

definition reply_errorCodes :: "json \<Rightarrow> json list" where
  "reply_errorCodes j = (case js_get j ''error-codes'' of Some (JArr xs) \<Rightarrow> xs | _ \<Rightarrow> [])"

text \<open>\<^verbatim>\<open>action ? { action } : {}\<close>: an empty string is dropped.\<close>

fun maybe_string :: "jstring option \<Rightarrow> jstring option" where
  "maybe_string None = None"
| "maybe_string (Some s) = (if s = [] then None else Some s)"

text \<open>
  Lines 116-120:
  \<^verbatim>\<open>(RECAPTCHA_EXPECTED_ACTION || opts?.expectedAction || "").trim()\<close>.
  A truthy \<^verbatim>\<open>expectedAction\<close> that is not a string has no \<^verbatim>\<open>trim\<close>: the call throws.
\<close>

definition expected_action :: "env \<Rightarrow> VerifyOptions \<Rightarrow> exn + jstring" where
  "expected_action e opts =
     (if RECAPTCHA_EXPECTED_ACTION e \<noteq> [] then Inr (js_trim (RECAPTCHA_EXPECTED_ACTION e))
      else if truthy_opt (expectedAction opts) then
        (case expectedAction opts of
           Some (JStr s) \<Rightarrow> Inr (js_trim s)
         | _ \<Rightarrow> Inl TypeError)
      else Inr (js_trim []))"

text \<open>
  The earlier text of recaptcha.ts (the variant without the timer) reads the same three
  values in another order:
  \<^verbatim>\<open>(opts?.expectedAction || RECAPTCHA_EXPECTED_ACTION || "").trim()\<close>.
\<close>

definition expected_action_earlier :: "env \<Rightarrow> VerifyOptions \<Rightarrow> exn + jstring" where
  "expected_action_earlier e opts =
     (if truthy_opt (expectedAction opts) then
        (case expectedAction opts of
           Some (JStr s) \<Rightarrow> Inr (js_trim s)
         | _ \<Rightarrow> Inl TypeError)
      else if RECAPTCHA_EXPECTED_ACTION e \<noteq> [] then Inr (js_trim (RECAPTCHA_EXPECTED_ACTION e))
      else Inr (js_trim []))"

text \<open>Line 121, line 131 and lines 141-145: the conditions of the three checks.\<close>

definition action_mismatch :: "jstring \<Rightarrow> json \<Rightarrow> bool" where
  "action_mismatch expected j = (expected \<noteq> [] \<and> reply_action j \<noteq> Some expected)"

definition low_score :: "env \<Rightarrow> json \<Rightarrow> bool" where
  "low_score e j =
     (case reply_score j of Some s \<Rightarrow> js_lt s (RECAPTCHA_MIN_SCORE e) | None \<Rightarrow> False)"

definition hostname_not_allowed :: "env \<Rightarrow> json \<Rightarrow> bool" where
  "hostname_not_allowed e j =
     (RECAPTCHA_ALLOWED_HOSTNAMES e \<noteq> [] \<and>
      (case maybe_string (reply_hostname j) of
         Some h \<Rightarrow> h \<notin> set (RECAPTCHA_ALLOWED_HOSTNAMES e)
       | None \<Rightarrow> False))"

text \<open>
  Lines 100-103: the optional keys of every result. The two results that name
  \<^verbatim>\<open>score\<close> or \<^verbatim>\<open>hostname\<close> directly do so where the value is known to be present, so
  they carry the same keys.
\<close>

definition maybes :: "json \<Rightarrow> extras" where
  "maybes j = \<lparr>x_score = reply_score j,
               x_action = maybe_string (reply_action j),
               x_hostname = maybe_string (reply_hostname j)\<rparr>"

text \<open>Lines 105-155: the checks on a reply that arrived.\<close>

definition check_reply :: "env \<Rightarrow> VerifyOptions \<Rightarrow> json \<Rightarrow> exn + RecaptchaVerifyResult" where
  "check_reply e opts j =
     (if \<not> reply_success j then
        Inr (VerifyFail (if reply_errorCodes j \<noteq> [] then reply_errorCodes j
                         else [JS ''not_success'']) (maybes j))
      else
        (case expected_action e opts of
           Inl ex \<Rightarrow> Inl ex
         | Inr expected \<Rightarrow>
             if action_mismatch expected j then
               Inr (VerifyFail [JS ''unexpected_action''] (maybes j))
             else if low_score e j then
               Inr (VerifyFail [JS ''low_score''] (maybes j))
             else if hostname_not_allowed e j then
               Inr (VerifyFail [JS ''hostname_not_allowed''] (maybes j))
             else Inr (VerifyOk (maybes j))))"

text \<open>
  Lines 63-67: the time budget of the call, \<^verbatim>\<open>opts.timeoutMs\<close> when it is a number and
  10000 otherwise, and the delay of the timer that is started with it.
\<close>

definition timeout_of :: "VerifyOptions \<Rightarrow> jsnum" where
  "timeout_of opts = (case timeoutMs opts of Some t \<Rightarrow> t | None \<Rightarrow> Fin 10000)"

definition budget_of :: "VerifyOptions \<Rightarrow> nat" where
  "budget_of opts = timer_delay (timeout_of opts)"

text \<open>
  \<^verbatim>\<open>verifyRecaptchaV3(token, opts)\<close>: the events of the call, the time spent waiting for
  the network, and the value returned or thrown.
\<close>

definition verifyRecaptchaV3 ::
  "env \<Rightarrow> net \<Rightarrow> json option \<Rightarrow> VerifyOptions \<Rightarrow> event list \<times> nat \<times> (exn + RecaptchaVerifyResult)" where
  "verifyRecaptchaV3 e n token opts =
     (if RECAPTCHA_SECRET e = [] then
        ([], 0, Inr (VerifyFail [JS ''secret_missing''] no_extras))
      else if \<not> truthy_opt token then
        ([], 0, Inr (VerifyFail [JS ''token_missing''] no_extras))
      else
        (let params_remoteip = maybe_string (remoteip opts);
             budget = budget_of opts;
             call = [SiteverifyFetch token params_remoteip budget]
         in
         case timed_fetch budget n of
           (Inl ex, t) \<Rightarrow>
             if ex = AbortError then
               (call, t, Inr (VerifyFail [JS ''verify_timeout''] no_extras))
             else
               (call, t, Inr (VerifyFail [JS ''verify_request_failed''] no_extras))
         | (Inr j, t) \<Rightarrow> (call, t, check_reply e opts j)))"



section \<open>mailer.ts\<close>

text \<open>
  What \<^verbatim>\<open>sendReservationEmail\<close> meets outside the process: whether the QR encoder
  returns, whether a template file is found under one of the three candidate
  directories, whether reading and compiling a template returns, and whether
  \<^verbatim>\<open>transporter.sendMail\<close> returns.
\<close>

record mail_env =
  qr_ok :: bool
  template_exists :: "string \<Rightarrow> bool"
  render_ok :: "string \<Rightarrow> bool"
  smtp_ok :: bool

text \<open>Lines 33-47. The path found stands for the file.\<close>

definition resolveTemplatePath :: "mail_env \<Rightarrow> string \<Rightarrow> exn + string" where
  "resolveTemplatePath me file =
     (if template_exists me file then Inr file else Inl (TemplateNotFound file))"

text \<open>Lines 132-151: the pair of templates, by \<^verbatim>\<open>result.code\<close>.\<close>

definition resolve_both :: "mail_env \<Rightarrow> string \<Rightarrow> string \<Rightarrow> exn + string \<times> string" where
  "resolve_both me html txt =
     (case resolveTemplatePath me html of
        Inl ex \<Rightarrow> Inl ex
      | Inr h \<Rightarrow> (case resolveTemplatePath me txt of
                    Inl ex \<Rightarrow> Inl ex
                  | Inr t \<Rightarrow> Inr (h, t)))"

definition select_templates :: "mail_env \<Rightarrow> json option \<Rightarrow> exn + string \<times> string" where
  "select_templates me statusCode =
     (if statusCode = Some (JS ''CREATED_ACTIVE'') then
        resolve_both me ''created_active.html'' ''created_active.txt''
      else if statusCode = Some (JS ''CREATED_CANCELED'') then
        resolve_both me ''created_canceled.html'' ''created_canceled.txt''
      else if statusCode = Some (JS ''CREATED_PENDING'') then
        resolve_both me ''created_pending.html'' ''created_pending.txt''
      else Inl (UnknownResultCode statusCode))"

text \<open>Lines 153-167: the \<^verbatim>\<open>switch\<close>; no case leaves the subject \<^verbatim>\<open>undefined\<close>.\<close>

definition Emailsubject :: "json option \<Rightarrow> subject option" where
  "Emailsubject statusCode =
     (if statusCode = Some (JS ''CREATED_ACTIVE'') then Some SubjectConfirmation
      else if statusCode = Some (JS ''CREATED_PENDING'') then Some SubjectPending
      else if statusCode = Some (JS ''CREATED_CANCELED'') then Some SubjectCancellation
      else None)"

text \<open>Lines 169-170: both templates are rendered before the mail is sent.\<close>

definition render_both :: "mail_env \<Rightarrow> string \<Rightarrow> string \<Rightarrow> exn + unit" where
  "render_both me html txt =
     (if \<not> render_ok me html then Inl (External ''render'')
      else if \<not> render_ok me txt then Inl (External ''render'')
      else Inr ())"

text \<open>
  \<^verbatim>\<open>sendReservationEmail(payload)\<close>: the events of the call and whether it returns or
  throws. The rendering variables are read from \<^verbatim>\<open>reservation\<close>, \<^verbatim>\<open>person\<close> and
  \<^verbatim>\<open>performance\<close> (lines 95-105) before anything else is decided; their values go into
  the templates and are not kept here, the reads that can throw are.
\<close>

definition sendReservationEmail :: "mail_env \<Rightarrow> json option \<Rightarrow> event list \<times> (exn + unit)" where
  "sendReservationEmail me payload =
     (case payload of
        None \<Rightarrow> ([], Inl MissingPayload)
      | Some result \<Rightarrow>
          if \<not> truthy result then ([], Inl MissingPayload)
          else
            (let statusCode = js_get result ''code'';
                 person = js_get result ''person'';
                 performance = js_get result ''performance'';
                 reservation = js_get result ''reservation''
             in
             if nullish reservation then ([], Inl TypeError)
             else if nullish person then ([], Inl TypeError)
             else if nullish performance then ([], Inl TypeError)
             else if \<not> qr_ok me then ([], Inl (External ''qrcode''))
             else
               (case select_templates me statusCode of
                  Inl ex \<Rightarrow> ([], Inl ex)
                | Inr (templateNameHtml, templateNameTxt) \<Rightarrow>
                    (case render_both me templateNameHtml templateNameTxt of
                       Inl ex \<Rightarrow> ([], Inl ex)
                     | Inr _ \<Rightarrow>
                         ([SendMail \<lparr>mail_to = js_opt_get person ''email'',
                                     mail_subject = Emailsubject statusCode,
                                     mail_html = templateNameHtml,
                                     mail_text = templateNameTxt,
                                     mail_qr = (statusCode = Some (JS ''CREATED_ACTIVE''))\<rparr>],
                          if smtp_ok me then Inr () else Inl (External ''smtp''))))))"


section \<open>server.ts\<close>

text \<open>
  The two libraries the route calls on its input: the e-mail pattern of the schema
  validator (applied to the trimmed string) and \<^verbatim>\<open>parsePhoneNumberFromString(s, "GR")\<close>,
  which returns nothing or a number with its E.164 form and its validity.
\<close>

record phone_number =
  pn_number :: jstring
  pn_isValid :: bool

record libs =
  is_email :: "jstring \<Rightarrow> bool"
  parsePhoneNumberFromString :: "jstring \<Rightarrow> phone_number option"

text \<open>
  Lines 46-51, \<^verbatim>\<open>UserSchema\<close>. Each field must be a string; it is trimmed, then checked.
  A failure lists the failing fields (the keys of \<^verbatim>\<open>fieldErrors\<close>); a success carries
  the trimmed strings.
\<close>

record user_data =
  d_name :: jstring
  d_surname :: jstring
  d_email :: jstring
  d_phone :: jstring

definition z_string_trim :: "json option \<Rightarrow> jstring option" where
  "z_string_trim v = (case v of Some (JStr s) \<Rightarrow> Some (js_trim s) | _ \<Rightarrow> None)"

definition z_min1_max80 :: "jstring option \<Rightarrow> bool" where
  "z_min1_max80 v = (case v of Some s \<Rightarrow> 1 \<le> length s \<and> length s \<le> 80 | None \<Rightarrow> False)"

definition z_email :: "libs \<Rightarrow> jstring option \<Rightarrow> bool" where
  "z_email l v = (case v of Some s \<Rightarrow> is_email l s | None \<Rightarrow> False)"

definition UserSchema_safeParse ::
  "libs \<Rightarrow> json option \<Rightarrow> json option \<Rightarrow> json option \<Rightarrow> json option \<Rightarrow> string list + user_data" where
  "UserSchema_safeParse l name surname email phone =
     (let n = z_string_trim name;
          s = z_string_trim surname;
          m = z_string_trim email;
          p = z_string_trim phone;
          fieldErrors =
            (if z_min1_max80 n then [] else [''name'']) @
            (if z_min1_max80 s then [] else [''surname'']) @
            (if z_email l m then [] else [''email'']) @
            (if p \<noteq> None then [] else [''phone''])
      in
      if fieldErrors \<noteq> [] then Inl fieldErrors
      else Inr \<lparr>d_name = or_empty n, d_surname = or_empty s,
                d_email = or_empty m, d_phone = or_empty p\<rparr>)"

text \<open>
  The bodies the routes send. \<open>ValidationErrorBody fs\<close> is
  \<^verbatim>\<open>{ok: false, status: "VALIDATION_ERROR", errors: fieldErrors}\<close>; \<open>InvalidPhoneBody\<close> is
  \<^verbatim>\<open>{ok: false, status: "INVALID_PHONE", info}\<close>; \<open>RecaptchaFailedBody v\<close> is
  \<^verbatim>\<open>{ok: false, code: "RECAPTCHA_FAILED", info, meta: v}\<close>; \<open>ResultBody r\<close> is the
  database result \<^verbatim>\<open>r\<close> as it came; \<open>ServerErrorBody\<close> is
  \<^verbatim>\<open>{ok: false, status: "SERVER_ERROR", info}\<close>.
\<close>

datatype body =
    ValidationErrorBody "string list"
  | InvalidPhoneBody
  | RecaptchaFailedBody RecaptchaVerifyResult
  | ResultBody json
  | ServerErrorBody

record response =
  status :: nat
  body :: body

text \<open>The keys of a body that the properties below speak about.\<close>

fun body_ok :: "body \<Rightarrow> json option" where
  "body_ok (ResultBody r) = js_get r ''ok''"
| "body_ok _ = Some (JBool False)"

fun body_code :: "body \<Rightarrow> json option" where
  "body_code (RecaptchaFailedBody v) = Some (JS ''RECAPTCHA_FAILED'')"
| "body_code (ResultBody r) = js_get r ''code''"
| "body_code _ = None"

fun body_errors :: "body \<Rightarrow> string list option" where
  "body_errors (ValidationErrorBody fs) = Some fs"
| "body_errors _ = None"

fun body_meta :: "body \<Rightarrow> RecaptchaVerifyResult option" where
  "body_meta (RecaptchaFailedBody v) = Some v"
| "body_meta _ = None"

text \<open>
  A request: the parsed body (\<^verbatim>\<open>undefined\<close> when the framework set none), \<^verbatim>\<open>req.ip\<close>
  and \<^verbatim>\<open>req.params.id\<close>.
\<close>

record request =
  req_body :: "json option"
  req_ip :: "jstring option"
  req_id :: jstring

text \<open>
  What one request meets outside the process: the network of the reCAPTCHA call, the
  outcome of \<^verbatim>\<open>pool.query\<close> (thrown, or \<^verbatim>\<open>rows[0]?.result\<close>), and the mailer's surroundings.
\<close>

record world =
  w_net :: net
  w_db :: "exn + json option"
  w_mail :: mail_env

text \<open>\<^verbatim>\<open>rows[0]?.result ?? { ok: false, status: "SERVER_ERROR" }\<close>\<close>

definition result_or_default :: "json option \<Rightarrow> json" where
  "result_or_default r =
     (if nullish r then JObj [(str ''ok'', JBool False), (str ''status'', JS ''SERVER_ERROR'')]
      else (case r of Some v \<Rightarrow> v | None \<Rightarrow> JNull))"

text \<open>
  \<^verbatim>\<open>POST /createReservation\<close>, lines 82-103: the schema, then the phone number. The
  outcome is thrown (a body that is \<^verbatim>\<open>undefined\<close> has no \<^verbatim>\<open>name\<close> to read), a response
  that ends the request, or the validated data.
\<close>

definition create_validate ::
  "libs \<Rightarrow> request \<Rightarrow> exn + (response + user_data \<times> phone_number)" where
  "create_validate l req =
     (if nullish (req_body req) then Inl TypeError
      else
        (case UserSchema_safeParse l
                (js_opt_get (req_body req) ''name'') (js_opt_get (req_body req) ''surname'')
                (js_opt_get (req_body req) ''email'') (js_opt_get (req_body req) ''phone'') of
           Inl fieldErrors \<Rightarrow>
             Inr (Inl \<lparr>status = 400, body = ValidationErrorBody fieldErrors\<rparr>)
         | Inr parsed \<Rightarrow>
             (case parsePhoneNumberFromString l (d_phone parsed) of
                None \<Rightarrow> Inr (Inl \<lparr>status = 400, body = InvalidPhoneBody\<rparr>)
              | Some phoneParsed \<Rightarrow>
                  if \<not> pn_isValid phoneParsed then
                    Inr (Inl \<lparr>status = 400, body = InvalidPhoneBody\<rparr>)
                  else Inr (Inr (parsed, phoneParsed)))))"

text \<open>
  Lines 106-117: the token and the options of the verification.
  \<^verbatim>\<open>x ?? undefined\<close> turns \<^verbatim>\<open>null\<close> into \<^verbatim>\<open>undefined\<close>; the route reads the raw
  environment variable, not the trimmed constant of recaptcha.ts.
\<close>

definition nullish_to_undefined :: "json option \<Rightarrow> json option" where
  "nullish_to_undefined v = (if nullish v then None else v)"

definition recaptchaToken :: "request \<Rightarrow> json option" where
  "recaptchaToken req = nullish_to_undefined (js_opt_get (req_body req) ''recaptcha'')"

definition recaptchaActionFromBody :: "request \<Rightarrow> json option" where
  "recaptchaActionFromBody req =
     nullish_to_undefined (js_opt_get (req_body req) ''recaptcha_action'')"

definition route_expectedAction :: "env \<Rightarrow> request \<Rightarrow> json option" where
  "route_expectedAction e req =
     (if or_empty (env_expected_action e) \<noteq> [] then Some (JStr (or_empty (env_expected_action e)))
      else recaptchaActionFromBody req)"

definition route_options :: "env \<Rightarrow> request \<Rightarrow> VerifyOptions" where
  "route_options e req =
     \<lparr>remoteip = maybe_string (req_ip req),
      expectedAction =
        (if truthy_opt (route_expectedAction e req) then route_expectedAction e req else None),
      timeoutMs = None\<rparr>"

text \<open>
  Lines 111-127: the verification, run only for a truthy token. The outcome is the
  events, then thrown, a response that ends the request, or nothing (go on).
\<close>

definition create_verify ::
  "env \<Rightarrow> world \<Rightarrow> request \<Rightarrow> event list \<times> (exn + response option)" where
  "create_verify e w req =
     (if truthy_opt (recaptchaToken req) then
        (case verifyRecaptchaV3 e (w_net w) (recaptchaToken req) (route_options e req) of
           (evs, t, Inl ex) \<Rightarrow> (evs, Inl ex)
         | (evs, t, Inr (VerifyOk x)) \<Rightarrow> (evs, Inr None)
         | (evs, t, Inr (VerifyFail rs x)) \<Rightarrow>
             (evs, Inr (Some \<lparr>status = 200, body = RecaptchaFailedBody (VerifyFail rs x)\<rparr>)))
      else ([], Inr None))"

text \<open>
  Lines 154-173: the response to a result of \<^verbatim>\<open>create_reservation_from_json\<close>. The mail
  is awaited before the response is sent, so a mailer that throws leaves no response
  here.
\<close>

definition create_respond :: "mail_env \<Rightarrow> json \<Rightarrow> event list \<times> (exn + response)" where
  "create_respond me result =
     (let code = js_get result ''code'' in
      if code = Some (JS ''CREATED_ACTIVE'') \<or> code = Some (JS ''CREATED_PENDING'') then
        (case sendReservationEmail me (Some result) of
           (evs, Inl ex) \<Rightarrow> (evs, Inl ex)
         | (evs, Inr _) \<Rightarrow> (evs, Inr \<lparr>status = 200, body = ResultBody result\<rparr>))
      else if code = Some (JS ''DUPLICATE_SAME_DATETIME'') then
        ([], Inr \<lparr>status = 409, body = ResultBody result\<rparr>)
      else if code = Some (JS ''PERFORMANCE_THEATER_NOT_FOUND'')
            \<or> code = Some (JS ''PERFORMANCE_DATETIME_NOT_FOUND'') then
        ([], Inr \<lparr>status = 404, body = ResultBody result\<rparr>)
      else if code = Some (JS ''MISSING_FIELDS'') \<or> code = Some (JS ''INVALID_NUM_SEATS'')
            \<or> code = Some (JS ''INVALID_DATE_TIME_FORMAT'')
            \<or> code = Some (JS ''INVALID_PHONE'') then
        ([], Inr \<lparr>status = 400, body = ResultBody result\<rparr>)
      else ([], Inr \<lparr>status = 400, body = ResultBody result\<rparr>))"

text \<open>Lines 129-152 and on: the query, then the response to its result.\<close>

definition create_delegate ::
  "world \<Rightarrow> user_data \<Rightarrow> phone_number \<Rightarrow> event list \<times> (exn + response)" where
  "create_delegate w parsed phoneParsed =
     (let query = [QueryCreate \<lparr>u_name = d_name parsed, u_surname = d_surname parsed,
                                u_phone = pn_number phoneParsed, u_email = d_email parsed\<rparr>]
      in
      case w_db w of
        Inl ex \<Rightarrow> (query, Inl ex)
      | Inr row \<Rightarrow>
          (case create_respond (w_mail w) (result_or_default row) of
             (evs, r) \<Rightarrow> (query @ evs, r)))"

text \<open>Lines 174-180: the \<^verbatim>\<open>catch\<close> of every route.\<close>

definition server_error :: response where
  "server_error = \<lparr>status = 500, body = ServerErrorBody\<rparr>"

fun catch_all :: "event list \<times> (exn + response) \<Rightarrow> event list \<times> response" where
  "catch_all (evs, Inl ex) = (evs, server_error)"
| "catch_all (evs, Inr r) = (evs, r)"

text \<open>\<^verbatim>\<open>POST /createReservation\<close>, lines 80-181.\<close>

definition createReservation_try ::
  "env \<Rightarrow> libs \<Rightarrow> world \<Rightarrow> request \<Rightarrow> event list \<times> (exn + response)" where
  "createReservation_try e l w req =
     (case create_validate l req of
        Inl ex \<Rightarrow> ([], Inl ex)
      | Inr (Inl r) \<Rightarrow> ([], Inr r)
      | Inr (Inr (parsed, phoneParsed)) \<Rightarrow>
          (case create_verify e w req of
             (evs, Inl ex) \<Rightarrow> (evs, Inl ex)
           | (evs, Inr (Some r)) \<Rightarrow> (evs, Inr r)
           | (evs, Inr None) \<Rightarrow>
               (case create_delegate w parsed phoneParsed of
                  (evs', r) \<Rightarrow> (evs @ evs', r))))"

definition createReservation :: "env \<Rightarrow> libs \<Rightarrow> world \<Rightarrow> request \<Rightarrow> event list \<times> response" where
  "createReservation e l w req = catch_all (createReservation_try e l w req)"

text \<open>\<^verbatim>\<open>GET /c/:id\<close>, lines 184-204.\<close>

definition confirm_respond :: "mail_env \<Rightarrow> json \<Rightarrow> event list \<times> (exn + response)" where
  "confirm_respond me result =
     (if js_get result ''code'' = Some (JS ''CREATED_ACTIVE'') then
        (case sendReservationEmail me (Some result) of
           (evs, Inl ex) \<Rightarrow> (evs, Inl ex)
         | (evs, Inr _) \<Rightarrow> (evs, Inr \<lparr>status = 200, body = ResultBody result\<rparr>))
      else ([], Inr \<lparr>status = 200, body = ResultBody result\<rparr>))"

definition confirmReservation :: "world \<Rightarrow> request \<Rightarrow> event list \<times> response" where
  "confirmReservation w req =
     catch_all
       (case w_db w of
          Inl ex \<Rightarrow> ([QueryConfirm (req_id req)], Inl ex)
        | Inr row \<Rightarrow>
            (case confirm_respond (w_mail w) (result_or_default row) of
               (evs, r) \<Rightarrow> (QueryConfirm (req_id req) # evs, r)))"

text \<open>\<^verbatim>\<open>GET /d/:id\<close>, lines 207-234.\<close>

definition cancel_respond :: "mail_env \<Rightarrow> json \<Rightarrow> event list \<times> (exn + response)" where
  "cancel_respond me result =
     (if js_get result ''code'' = Some (JS ''CREATED_CANCELED'') then
        (case sendReservationEmail me (Some result) of
           (evs, Inl ex) \<Rightarrow> (evs, Inl ex)
         | (evs, Inr _) \<Rightarrow> (evs, Inr \<lparr>status = 200, body = ResultBody result\<rparr>))
      else if js_get result ''code'' = Some (JS ''NO_RESERVATION'') then
        ([], Inr \<lparr>status = 404, body = ResultBody result\<rparr>)
      else if js_get result ''code'' = Some (JS ''NO_PERMISSION'') then
        ([], Inr \<lparr>status = 403, body = ResultBody result\<rparr>)
      else ([], Inr \<lparr>status = 400, body = ResultBody result\<rparr>))"

definition cancelReservation :: "world \<Rightarrow> request \<Rightarrow> event list \<times> response" where
  "cancelReservation w req =
     catch_all
       (case w_db w of
          Inl ex \<Rightarrow> ([QueryCancel (req_id req)], Inl ex)
        | Inr row \<Rightarrow>
            (case cancel_respond (w_mail w) (result_or_default row) of
               (evs, r) \<Rightarrow> (QueryCancel (req_id req) # evs, r)))"



section \<open>Sample inputs\<close>

text \<open>Concrete configurations, requests and surroundings on which the properties are run.\<close>

definition sample_env :: env where
  "sample_env = \<lparr>env_secret_key = Some (str ''secret''), env_min_score = None,
                  env_expected_action = None, env_allowed_hostnames = None\<rparr>"

definition strict_env :: env where
  "strict_env = \<lparr>env_secret_key = Some (str ''secret''), env_min_score = None,
                  env_expected_action = Some (str '' reserve ''),
                  env_allowed_hostnames = Some (str ''tickets.example, www.tickets.example'')\<rparr>"

definition no_options :: VerifyOptions where
  "no_options = \<lparr>remoteip = None, expectedAction = None, timeoutMs = None\<rparr>"

definition net_with :: "nat \<Rightarrow> exn + json \<Rightarrow> net" where
  "net_with d r = \<lparr>net_latency = Some d, net_reply = r\<rparr>"

definition silent_net :: net where
  "silent_net = \<lparr>net_latency = None, net_reply = Inl (External ''network'')\<rparr>"

definition reply_plain :: json where
  "reply_plain = JObj [(str ''success'', JBool True)]"

definition reply_bad :: json where
  "reply_bad = JObj [(str ''success'', JBool True), (str ''score'', JNum (Fin (1 / 5))),
                     (str ''action'', JS ''login''), (str ''hostname'', JS ''evil.example'')]"

definition sample_libs :: libs where
  "sample_libs =
     \<lparr>is_email = (\<lambda>s. of_char CHR ''@'' \<in> set s),
      parsePhoneNumberFromString =
        (\<lambda>s. if s = str ''6912345678''
              then Some \<lparr>pn_number = str ''+306912345678'', pn_isValid = True\<rparr>
              else None)\<rparr>"

definition sample_body :: "(jstring \<times> json) list" where
  "sample_body = [(str ''name'', JS ''A''), (str ''surname'', JS ''B''),
                  (str ''email'', JS ''a@b.com''), (str ''phone'', JS ''6912345678'')]"

definition sample_request :: request where
  "sample_request = \<lparr>req_body = Some (JObj sample_body), req_ip = None, req_id = str ''r1''\<rparr>"

definition token_request :: request where
  "token_request =
     \<lparr>req_body = Some (JObj ((str ''recaptcha'', JS ''tok'') # sample_body)),
      req_ip = Some (str ''10.0.0.1''), req_id = str ''r1''\<rparr>"

definition bad_phone_request :: request where
  "bad_phone_request =
     \<lparr>req_body = Some (JObj [(str ''name'', JS ''A''), (str ''surname'', JS ''B''),
                              (str ''email'', JS ''a@b.com''), (str ''phone'', JS ''12'')]),
      req_ip = None, req_id = str ''r1''\<rparr>"

definition reply_failed :: json where
  "reply_failed = JObj [(str ''success'', JBool False),
                        (str ''error-codes'', JArr [JS ''timeout-or-duplicate''])]"

definition good_mail_env :: mail_env where
  "good_mail_env = \<lparr>qr_ok = True, template_exists = (\<lambda>f. True),
                     render_ok = (\<lambda>f. True), smtp_ok = True\<rparr>"

definition outcome :: "string \<Rightarrow> json" where
  "outcome c =
     JObj [(str ''ok'', JBool True), (str ''code'', JS c),
           (str ''person'', JObj [(str ''email'', JS ''a@b.com'')]),
           (str ''performance'', JObj [(str ''name'', JS ''P'')]),
           (str ''reservation'', JObj [(str ''id'', JS ''r1''), (str ''code'', JS ''X1'')])]"

text \<open>A result that carries a code and nothing to write a mail from.\<close>

definition bare_outcome :: "string \<Rightarrow> json" where
  "bare_outcome c = JObj [(str ''ok'', JBool False), (str ''code'', JS c)]"

definition world_with :: "net \<Rightarrow> exn + json option \<Rightarrow> mail_env \<Rightarrow> world" where
  "world_with n d m = \<lparr>w_net = n, w_db = d, w_mail = m\<rparr>"

text \<open>The mails sent during a request, in order.\<close>

fun dispatches :: "event list \<Rightarrow> mail list" where
  "dispatches [] = []"
| "dispatches (SendMail m # evs) = m # dispatches evs"
| "dispatches (_ # evs) = dispatches evs"

text \<open>The database calls made during a request, in order.\<close>

fun is_query :: "event \<Rightarrow> bool" where
  "is_query (QueryCreate p) = True"
| "is_query (QueryConfirm i) = True"
| "is_query (QueryCancel i) = True"
| "is_query _ = False"




text \<open>
  The request is cleared for the backend: it has a body, the schema accepts the
  identity fields, the phone number parses and is valid, and, when the request carries
  a truthy token, the verifier returned an accepting result.
\<close>

definition schema_result :: "libs \<Rightarrow> request \<Rightarrow> string list + user_data" where
  "schema_result l req =
     UserSchema_safeParse l
       (js_opt_get (req_body req) ''name'') (js_opt_get (req_body req) ''surname'')
       (js_opt_get (req_body req) ''email'') (js_opt_get (req_body req) ''phone'')"

definition phone_result :: "libs \<Rightarrow> request \<Rightarrow> phone_number option" where
  "phone_result l req =
     (case schema_result l req of
        Inl fieldErrors \<Rightarrow> None
      | Inr parsed \<Rightarrow>
          (case parsePhoneNumberFromString l (d_phone parsed) of
             None \<Rightarrow> None
           | Some phoneParsed \<Rightarrow> if pn_isValid phoneParsed then Some phoneParsed else None))"

definition verify_result :: "env \<Rightarrow> world \<Rightarrow> request \<Rightarrow> exn + RecaptchaVerifyResult" where
  "verify_result e w req =
     snd (snd (verifyRecaptchaV3 e (w_net w) (recaptchaToken req) (route_options e req)))"

fun accepted :: "exn + RecaptchaVerifyResult \<Rightarrow> bool" where
  "accepted (Inr (VerifyOk x)) = True"
| "accepted _ = False"

definition cleared :: "env \<Rightarrow> libs \<Rightarrow> world \<Rightarrow> request \<Rightarrow> bool" where
  "cleared e l w req =
     (\<not> nullish (req_body req) \<and> phone_result l req \<noteq> None
      \<and> (truthy_opt (recaptchaToken req) \<longrightarrow> accepted (verify_result e w req)))"

text \<open>The payload the route builds from the validated data (lines 129-135).\<close>

definition built_payload :: "libs \<Rightarrow> request \<Rightarrow> payload_user" where
  "built_payload l req =
     (case schema_result l req of
        Inl fieldErrors \<Rightarrow> \<lparr>u_name = [], u_surname = [], u_phone = [], u_email = []\<rparr>
      | Inr parsed \<Rightarrow>
          \<lparr>u_name = d_name parsed, u_surname = d_surname parsed,
           u_phone = (case phone_result l req of Some ph \<Rightarrow> pn_number ph | None \<Rightarrow> []),
           u_email = d_email parsed\<rparr>)"

text \<open>
  A response that turns the request down: its body says \<^verbatim>\<open>ok: false\<close>, it is not a
  result of the backend, and it is a 400, a 500, or the 200 of a failed risk check.
\<close>

definition rejection :: "response \<Rightarrow> bool" where
  "rejection r =
     (body_ok (body r) = Some (JBool False)
      \<and> (case body r of ResultBody j \<Rightarrow> False | _ \<Rightarrow> True)
      \<and> (status r = 400 \<or> status r = 500
         \<or> (status r = 200 \<and> body_code (body r) = Some (JS ''RECAPTCHA_FAILED''))))"



section \<open>Strings\<close>

lemma str_eq_iff [simp]: "str a = str b \<longleftrightarrow> a = b"
  by (metis list.inj_map_strong of_char_eq_iff str_def)

lemma str_Nil [simp]: "str [] = []"
  by (simp add: str_def)

lemma str_eq_Nil [simp]: "str s = [] \<longleftrightarrow> s = []"
  by (simp add: str_def)

section \<open>Properties of the verifier\<close>

lemma dropWhile_rev_stable:
  assumes "dropWhile P t = t"
  shows "dropWhile P (rev (dropWhile P (rev t))) = rev (dropWhile P (rev t))"
  using assms
  by (metis (no_types, lifting) Nil_is_rev_conv dropWhile_eq_Nil_conv
      dropWhile_eq_self_iff dropWhile_last hd_rev last_rev)

lemma js_trim_idem: "js_trim (js_trim s) = js_trim s"
proof -
  define t where "t = dropWhile js_whitespace s"
  have t: "dropWhile js_whitespace t = t"
    by (simp add: t_def)
  have "js_trim (js_trim s) =
          rev (dropWhile js_whitespace (rev (dropWhile js_whitespace
            (rev (dropWhile js_whitespace (rev t))))))"
    by (simp add: js_trim_def t_def)
  also have "\<dots> = rev (dropWhile js_whitespace (rev (rev (dropWhile js_whitespace (rev t)))))"
    using dropWhile_rev_stable [OF t] by simp
  also have "\<dots> = js_trim s"
    by (simp add: js_trim_def t_def)
  finally show ?thesis .
qed

lemma verify_on_reply:
  assumes "RECAPTCHA_SECRET e \<noteq> []" and "truthy_opt token"
    and "timed_fetch (budget_of opts) n = (Inr j, t)"
  shows "verifyRecaptchaV3 e n token opts =
           ([SiteverifyFetch token (maybe_string (remoteip opts)) (budget_of opts)], t,
            check_reply e opts j)"
  using assms by (simp add: verifyRecaptchaV3_def)

lemma verify_on_throw:
  assumes "RECAPTCHA_SECRET e \<noteq> []" and "truthy_opt token"
    and "timed_fetch (budget_of opts) n = (Inl ex, t)"
  shows "verifyRecaptchaV3 e n token opts =
           ([SiteverifyFetch token (maybe_string (remoteip opts)) (budget_of opts)], t,
            Inr (VerifyFail [JS (if ex = AbortError then ''verify_timeout''
                                   else ''verify_request_failed'')] no_extras))"
  using assms by (simp add: verifyRecaptchaV3_def)

lemma timed_fetch_in_time:
  assumes "net_latency n = Some d" and "d < b"
  shows "timed_fetch b n = (net_reply n, d)"
  using assms by (simp add: timed_fetch_def)

lemma timed_fetch_late:
  assumes "net_latency n = None \<or> (\<exists>d. net_latency n = Some d \<and> b \<le> d)"
  shows "timed_fetch b n = (Inl AbortError, b)"
  using assms by (auto simp: timed_fetch_def)

lemma check_reply_reasons:
  assumes "check_reply e opts j = Inr (VerifyFail rs x)"
  shows "(\<not> reply_success j \<and> rs = reply_errorCodes j \<and> rs \<noteq> []) \<or> length rs = 1"
  using assms
  by (auto simp: check_reply_def split: if_splits sum.splits)

lemmas sample_defs =
  sample_env_def strict_env_def no_options_def net_with_def silent_net_def reply_plain_def
  reply_bad_def sample_libs_def sample_body_def sample_request_def token_request_def
  good_mail_env_def outcome_def world_with_def bad_phone_request_def reply_failed_def bare_outcome_def
  str_def

lemmas budget_defs =
  budget_of_def timeout_of_def TIMEOUT_MAX_def

lemmas config_defs =
  RECAPTCHA_SECRET_def RECAPTCHA_MIN_SCORE_def RECAPTCHA_EXPECTED_ACTION_def
  RECAPTCHA_ALLOWED_HOSTNAMES_def js_trim_def js_whitespace_def

lemmas reply_defs =
  reply_success_def reply_score_def reply_action_def reply_hostname_def reply_errorCodes_def
  maybes_def action_mismatch_def low_score_def hostname_not_allowed_def expected_action_def

section \<open>The score threshold\<close>

text \<open>
  Claim C10. A reply that arrived with a truthy \<^verbatim>\<open>success\<close> and no numeric \<^verbatim>\<open>score\<close> is
  never rejected with the reason \<^verbatim>\<open>low_score\<close>, whatever minimum is configured; and when
  neither the action check nor the hostname check objects, it is accepted, and the
  result has no \<^verbatim>\<open>score\<close> key.
\<close>

theorem no_score_skips_threshold:
  assumes "RECAPTCHA_SECRET e \<noteq> []" and "truthy_opt token"
    and "net_latency n = Some d" and "d < budget_of opts" and "net_reply n = Inr j"
    and "reply_success j" and "reply_score j = None"
  shows "(\<forall>rs x. snd (snd (verifyRecaptchaV3 e n token opts)) = Inr (VerifyFail rs x)
            \<longrightarrow> JS ''low_score'' \<notin> set rs)
       \<and> (\<forall>expected. expected_action e opts = Inr expected
            \<and> \<not> action_mismatch expected j \<and> \<not> hostname_not_allowed e j
            \<longrightarrow> snd (snd (verifyRecaptchaV3 e n token opts))
                  = Inr (VerifyOk \<lparr>x_score = None,
                                   x_action = maybe_string (reply_action j),
                                   x_hostname = maybe_string (reply_hostname j)\<rparr>))"
proof -
  have "timed_fetch (budget_of opts) n = (Inr j, d)"
    using timed_fetch_in_time [OF assms(3,4)] assms(5) by simp
  then have v: "snd (snd (verifyRecaptchaV3 e n token opts)) = check_reply e opts j"
    using verify_on_reply [OF assms(1,2)] by simp
  have low: "\<not> low_score e j"
    using assms(7) by (simp add: low_score_def)
  show ?thesis
    unfolding v using assms(6,7) low
    by (auto simp: check_reply_def maybes_def split: if_splits sum.splits)
qed

theorem no_score_skips_threshold_witness:
  "RECAPTCHA_SECRET (sample_env\<lparr>env_min_score := Some PosInf\<rparr>) \<noteq> []
   \<and> reply_success reply_plain \<and> reply_score reply_plain = None
   \<and> verifyRecaptchaV3 (sample_env\<lparr>env_min_score := Some PosInf\<rparr>)
        (net_with 120 (Inr reply_plain)) (Some (JS ''tok'')) no_options
     = ([SiteverifyFetch (Some (JS ''tok'')) None 10000], 120, Inr (VerifyOk no_extras))"
proof -
  let ?e = "sample_env\<lparr>env_min_score := Some PosInf\<rparr>"
  let ?n = "net_with 120 (Inr reply_plain)"
  have h1: "RECAPTCHA_SECRET ?e \<noteq> []"
    by (simp add: sample_defs config_defs)
  have h2: "truthy_opt (Some (JS ''tok''))"
    by simp
  have h3: "net_latency ?n = Some 120" and h5: "net_reply ?n = Inr reply_plain"
    by (simp_all add: sample_defs)
  have h4: "120 < budget_of no_options"
    by (simp add: budget_defs sample_defs)
  have h6: "reply_success reply_plain" and h7: "reply_score reply_plain = None"
    by (simp_all add: sample_defs reply_defs)
  have ex: "expected_action ?e no_options = Inr []"
    by (simp add: sample_defs reply_defs config_defs)
  have ok: "\<not> action_mismatch [] reply_plain \<and> \<not> hostname_not_allowed ?e reply_plain"
    by (simp add: sample_defs reply_defs config_defs)
  from no_score_skips_threshold [OF h1 h2 h3 h4 h5 h6 h7] ex ok
  have "snd (snd (verifyRecaptchaV3 ?e ?n (Some (JS ''tok'')) no_options))
          = Inr (VerifyOk \<lparr>x_score = None,
                           x_action = maybe_string (reply_action reply_plain),
                           x_hostname = maybe_string (reply_hostname reply_plain)\<rparr>)"
    by blast
  then show ?thesis
    using h1 h6 h7
    by (simp add: verifyRecaptchaV3_def timed_fetch_def budget_defs sample_defs
        reply_defs no_extras_def)
qed




section \<open>The order of the checks\<close>

text \<open>
  Claim C4. With a secret and a token, the verifier decides in this order. A call that
  threw (timeout or any other transport failure) gives a rejection with one reason,
  whatever the reply would have been. On a reply that arrived: a falsy \<^verbatim>\<open>success\<close> gives
  the upstream's \<^verbatim>\<open>error-codes\<close> (or \<^verbatim>\<open>not_success\<close>), whatever the other checks would
  say; then an action mismatch gives \<^verbatim>\<open>unexpected_action\<close>, whatever the score and the
  hostname are; then a low score gives \<^verbatim>\<open>low_score\<close>, whatever the hostname is; then a
  hostname outside the list gives \<^verbatim>\<open>hostname_not_allowed\<close>; otherwise the reply is
  accepted. Every rejection of a reply with truthy \<^verbatim>\<open>success\<close> carries exactly one
  reason, and a rejection whose reason list has another length is an upstream failure
  carrying the upstream's codes.
\<close>

theorem checks_in_fixed_order:
  assumes "RECAPTCHA_SECRET e \<noteq> []" and "truthy_opt token"
  shows "(\<forall>ex t. timed_fetch (budget_of opts) n = (Inl ex, t) \<longrightarrow>
            (\<exists>c. snd (snd (verifyRecaptchaV3 e n token opts)) = Inr (VerifyFail [JStr c] no_extras)))
       \<and> (\<forall>j t. timed_fetch (budget_of opts) n = (Inr j, t) \<longrightarrow>
            (\<not> reply_success j \<longrightarrow>
               snd (snd (verifyRecaptchaV3 e n token opts)) =
                 Inr (VerifyFail (if reply_errorCodes j \<noteq> [] then reply_errorCodes j
                                  else [JS ''not_success'']) (maybes j)))
          \<and> (\<forall>expected. reply_success j \<and> expected_action e opts = Inr expected \<longrightarrow>
               (action_mismatch expected j \<longrightarrow>
                  snd (snd (verifyRecaptchaV3 e n token opts)) =
                    Inr (VerifyFail [JS ''unexpected_action''] (maybes j)))
             \<and> (\<not> action_mismatch expected j \<and> low_score e j \<longrightarrow>
                  snd (snd (verifyRecaptchaV3 e n token opts)) =
                    Inr (VerifyFail [JS ''low_score''] (maybes j)))
             \<and> (\<not> action_mismatch expected j \<and> \<not> low_score e j \<and> hostname_not_allowed e j \<longrightarrow>
                  snd (snd (verifyRecaptchaV3 e n token opts)) =
                    Inr (VerifyFail [JS ''hostname_not_allowed''] (maybes j)))
             \<and> (\<not> action_mismatch expected j \<and> \<not> low_score e j \<and> \<not> hostname_not_allowed e j \<longrightarrow>
                  snd (snd (verifyRecaptchaV3 e n token opts)) = Inr (VerifyOk (maybes j))))
          \<and> (\<forall>rs x. snd (snd (verifyRecaptchaV3 e n token opts)) = Inr (VerifyFail rs x)
                \<and> reply_success j \<longrightarrow> length rs = 1))
       \<and> (\<forall>rs x. snd (snd (verifyRecaptchaV3 e n token opts)) = Inr (VerifyFail rs x)
              \<and> length rs \<noteq> 1 \<longrightarrow>
            (\<exists>j t. timed_fetch (budget_of opts) n = (Inr j, t) \<and> \<not> reply_success j
                    \<and> rs = reply_errorCodes j))"
proof (intro conjI allI impI)
  fix ex t assume "timed_fetch (budget_of opts) n = (Inl ex, t)"
  from verify_on_throw [OF assms this]
  show "\<exists>c. snd (snd (verifyRecaptchaV3 e n token opts)) = Inr (VerifyFail [JStr c] no_extras)"
    by simp
next
  fix j t assume f: "timed_fetch (budget_of opts) n = (Inr j, t)"
  note v = verify_on_reply [OF assms f]
  { assume "\<not> reply_success j"
    then show "snd (snd (verifyRecaptchaV3 e n token opts)) =
                 Inr (VerifyFail (if reply_errorCodes j \<noteq> [] then reply_errorCodes j
                                  else [JS ''not_success'']) (maybes j))"
      by (simp add: v check_reply_def) }
  { fix expected assume h: "reply_success j \<and> expected_action e opts = Inr expected"
    { assume "action_mismatch expected j"
      with h show "snd (snd (verifyRecaptchaV3 e n token opts)) =
                    Inr (VerifyFail [JS ''unexpected_action''] (maybes j))"
        by (simp add: v check_reply_def) }
    { assume "\<not> action_mismatch expected j \<and> low_score e j"
      with h show "snd (snd (verifyRecaptchaV3 e n token opts)) =
                    Inr (VerifyFail [JS ''low_score''] (maybes j))"
        by (simp add: v check_reply_def) }
    { assume "\<not> action_mismatch expected j \<and> \<not> low_score e j \<and> hostname_not_allowed e j"
      with h show "snd (snd (verifyRecaptchaV3 e n token opts)) =
                    Inr (VerifyFail [JS ''hostname_not_allowed''] (maybes j))"
        by (simp add: v check_reply_def) }
    { assume "\<not> action_mismatch expected j \<and> \<not> low_score e j \<and> \<not> hostname_not_allowed e j"
      with h show "snd (snd (verifyRecaptchaV3 e n token opts)) = Inr (VerifyOk (maybes j))"
        by (simp add: v check_reply_def) } }
  { fix rs x
    assume "snd (snd (verifyRecaptchaV3 e n token opts)) = Inr (VerifyFail rs x) \<and> reply_success j"
    then have "check_reply e opts j = Inr (VerifyFail rs x)" and "reply_success j"
      by (simp_all add: v)
    with check_reply_reasons show "length rs = 1"
      by blast }
next
  fix rs x
  assume a: "snd (snd (verifyRecaptchaV3 e n token opts)) = Inr (VerifyFail rs x) \<and> length rs \<noteq> 1"
  obtain r t where f: "timed_fetch (budget_of opts) n = (r, t)"
    by (cases "timed_fetch (budget_of opts) n")
  show "\<exists>j t. timed_fetch (budget_of opts) n = (Inr j, t) \<and> \<not> reply_success j
              \<and> rs = reply_errorCodes j"
  proof (cases r)
    case (Inl ex)
    with verify_on_throw [OF assms] f a show ?thesis
      by auto
  next
    case (Inr j)
    with verify_on_reply [OF assms] f a have "check_reply e opts j = Inr (VerifyFail rs x)"
      by auto
    with check_reply_reasons a have "\<not> reply_success j \<and> rs = reply_errorCodes j"
      by blast
    with Inr f show ?thesis
      by blast
  qed
qed

theorem checks_in_fixed_order_witness:
  "RECAPTCHA_SECRET strict_env \<noteq> [] \<and> truthy_opt (Some (JS ''tok''))
   \<and> timed_fetch (budget_of no_options) (net_with 120 (Inr reply_bad)) = (Inr reply_bad, 120)
   \<and> reply_success reply_bad \<and> expected_action strict_env no_options = Inr (str ''reserve'')
   \<and> action_mismatch (str ''reserve'') reply_bad \<and> low_score strict_env reply_bad
   \<and> hostname_not_allowed strict_env reply_bad
   \<and> snd (snd (verifyRecaptchaV3 strict_env (net_with 120 (Inr reply_bad))
                  (Some (JS ''tok'')) no_options))
       = Inr (VerifyFail [JS ''unexpected_action'']
               \<lparr>x_score = Some (Fin (1 / 5)), x_action = Some (str ''login''),
                x_hostname = Some (str ''evil.example'')\<rparr>)"
proof -
  let ?n = "net_with 120 (Inr reply_bad)"
  have h1: "RECAPTCHA_SECRET strict_env \<noteq> []"
    by (simp add: sample_defs config_defs)
  have h2: "truthy_opt (Some (JS ''tok''))"
    by simp
  have f: "timed_fetch (budget_of no_options) ?n = (Inr reply_bad, 120)"
    by (simp add: timed_fetch_def budget_defs sample_defs)
  have s: "reply_success reply_bad"
    by (simp add: sample_defs reply_defs)
  have ex: "expected_action strict_env no_options = Inr (str ''reserve'')"
    by (simp add: sample_defs reply_defs config_defs)
  have m: "action_mismatch (str ''reserve'') reply_bad"
    by (simp add: sample_defs reply_defs)
  have l: "low_score strict_env reply_bad"
    by (simp add: sample_defs reply_defs config_defs)
  have hn: "hostname_not_allowed strict_env reply_bad"
    by (simp add: sample_defs reply_defs config_defs)
  have mb: "maybes reply_bad = \<lparr>x_score = Some (Fin (1 / 5)), x_action = Some (str ''login''),
                                x_hostname = Some (str ''evil.example'')\<rparr>"
    by (simp add: sample_defs reply_defs)
  from checks_in_fixed_order [OF h1 h2, of no_options ?n] f s ex m
  have "snd (snd (verifyRecaptchaV3 strict_env ?n (Some (JS ''tok'')) no_options))
          = Inr (VerifyFail [JS ''unexpected_action''] (maybes reply_bad))"
    by blast
  with h1 h2 f s ex m l hn mb show ?thesis
    by simp
qed




section \<open>The time budget\<close>

lemma timer_delay_ge_1: "1 \<le> timer_delay t"
proof (cases t)
  case (Fin r)
  show ?thesis
  proof (cases "1 \<le> r \<and> r \<le> TIMEOUT_MAX")
    case True
    then have "1 \<le> \<lfloor>r\<rfloor>"
      by (simp add: le_floor_iff)
    then have "1 \<le> nat \<lfloor>r\<rfloor>"
      by linarith
    with True Fin show ?thesis
      by simp
  next
    case False
    with Fin show ?thesis
      by auto
  qed
qed simp_all

lemma timer_delay_whole:
  assumes "1 \<le> m" and "m \<le> 2147483647"
  shows "timer_delay (Fin (of_nat m)) = m"
proof -
  have "(1::rat) \<le> of_nat m"
    using assms(1) by simp
  moreover have "(of_nat m :: rat) \<le> 2147483647"
    using assms(2) by (metis of_nat_le_iff of_nat_numeral)
  ultimately show ?thesis
    by (simp add: TIMEOUT_MAX_def)
qed

lemma timer_delay_le:
  assumes "1 \<le> r"
  shows "of_nat (timer_delay (Fin r)) \<le> r"
proof (cases "r \<le> TIMEOUT_MAX")
  case True
  have "0 \<le> \<lfloor>r\<rfloor>"
    using assms by (simp add: le_floor_iff)
  then have "(of_nat (nat \<lfloor>r\<rfloor>) :: rat) = of_int \<lfloor>r\<rfloor>"
    by simp
  with True assms show ?thesis
    by simp
next
  case False
  with assms show ?thesis
    by simp
qed

lemma timer_delay_clamped:
  assumes "\<forall>r. t = Fin r \<longrightarrow> r < 1 \<or> 2147483647 < r"
  shows "timer_delay t = 1"
  using assms by (cases t) (auto simp: TIMEOUT_MAX_def)

text \<open>
  Claim C5. With a secret and a token, the verifier makes exactly one call to the
  scoring endpoint, whatever its outcome (nothing is retried), under a timer started
  with the time budget. The timer's delay is 10000 ms when the caller gives no budget
  and the caller's \<^verbatim>\<open>timeoutMs\<close> when that is a whole number of milliseconds from 1 to
  2147483647; it never exceeds a budget of at least one millisecond, and it is one
  millisecond for every budget the runtime's timer does not take (below 1, above
  2147483647, infinite, not a number). The verifier never waits longer than the timer.
  A call that has not settled when the timer fires is aborted: the result, at that
  moment, is the rejection with the single reason \<^verbatim>\<open>verify_timeout\<close>. A call that fails
  before that with any other error gives the rejection with the single reason
  \<^verbatim>\<open>verify_request_failed\<close>.
\<close>

theorem bounded_call_never_retried:
  assumes "RECAPTCHA_SECRET e \<noteq> []" and "truthy_opt token"
  shows "fst (verifyRecaptchaV3 e n token opts)
           = [SiteverifyFetch token (maybe_string (remoteip opts)) (budget_of opts)]
       \<and> (timeoutMs opts = None \<longrightarrow> budget_of opts = 10000)
       \<and> (\<forall>m. timeoutMs opts = Some (Fin (of_nat m)) \<and> 1 \<le> m \<and> m \<le> 2147483647 \<longrightarrow>
            budget_of opts = m)
       \<and> (\<forall>r. timeoutMs opts = Some (Fin r) \<and> 1 \<le> r \<longrightarrow> of_nat (budget_of opts) \<le> r)
       \<and> (\<forall>t. timeoutMs opts = Some t \<and> (\<forall>r. t = Fin r \<longrightarrow> r < 1 \<or> 2147483647 < r) \<longrightarrow>
            budget_of opts = 1)
       \<and> fst (snd (verifyRecaptchaV3 e n token opts)) \<le> budget_of opts
       \<and> (net_latency n = None \<or> (\<exists>d. net_latency n = Some d \<and> budget_of opts \<le> d) \<longrightarrow>
            snd (verifyRecaptchaV3 e n token opts)
              = (budget_of opts, Inr (VerifyFail [JS ''verify_timeout''] no_extras)))
       \<and> (\<forall>d ex. net_latency n = Some d \<and> d < budget_of opts \<and> net_reply n = Inl ex
              \<and> ex \<noteq> AbortError \<longrightarrow>
            snd (verifyRecaptchaV3 e n token opts)
              = (d, Inr (VerifyFail [JS ''verify_request_failed''] no_extras)))"
proof (intro conjI allI impI)
  obtain r t where f: "timed_fetch (budget_of opts) n = (r, t)"
    by (cases "timed_fetch (budget_of opts) n")
  show "fst (verifyRecaptchaV3 e n token opts)
          = [SiteverifyFetch token (maybe_string (remoteip opts)) (budget_of opts)]"
    using verify_on_throw [OF assms] verify_on_reply [OF assms] f
    by (cases r) simp_all
  have "t \<le> budget_of opts"
    using f by (auto simp: timed_fetch_def split: option.splits if_splits)
  then show "fst (snd (verifyRecaptchaV3 e n token opts)) \<le> budget_of opts"
    using verify_on_throw [OF assms] verify_on_reply [OF assms] f
    by (cases r) simp_all
next
  assume "timeoutMs opts = None"
  then show "budget_of opts = 10000"
    by (simp add: budget_defs)
next
  fix m assume "timeoutMs opts = Some (Fin (of_nat m)) \<and> 1 \<le> m \<and> m \<le> 2147483647"
  then show "budget_of opts = m"
    using timer_delay_whole [of m]
    by (simp add: budget_of_def timeout_of_def del: timer_delay.simps)
next
  fix r assume "timeoutMs opts = Some (Fin r) \<and> 1 \<le> r"
  then show "of_nat (budget_of opts) \<le> r"
    using timer_delay_le [of r]
    by (simp add: budget_of_def timeout_of_def del: timer_delay.simps)
next
  fix t assume "timeoutMs opts = Some t \<and> (\<forall>r. t = Fin r \<longrightarrow> r < 1 \<or> 2147483647 < r)"
  then show "budget_of opts = 1"
    using timer_delay_clamped [of t]
    by (simp add: budget_of_def timeout_of_def del: timer_delay.simps)
next
  assume "net_latency n = None \<or> (\<exists>d. net_latency n = Some d \<and> budget_of opts \<le> d)"
  from verify_on_throw [OF assms timed_fetch_late [OF this]]
  show "snd (verifyRecaptchaV3 e n token opts)
          = (budget_of opts, Inr (VerifyFail [JS ''verify_timeout''] no_extras))"
    by simp
next
  fix d ex
  assume a: "net_latency n = Some d \<and> d < budget_of opts \<and> net_reply n = Inl ex
             \<and> ex \<noteq> AbortError"
  then have "timed_fetch (budget_of opts) n = (Inl ex, d)"
    using timed_fetch_in_time [of n d "budget_of opts"] by simp
  from verify_on_throw [OF assms this] a
  show "snd (verifyRecaptchaV3 e n token opts)
          = (d, Inr (VerifyFail [JS ''verify_request_failed''] no_extras))"
    by simp
qed

theorem bounded_call_never_retried_witness:
  "RECAPTCHA_SECRET sample_env \<noteq> [] \<and> truthy_opt (Some (JS ''tok''))
   \<and> timeoutMs no_options = None \<and> net_latency silent_net = None
   \<and> verifyRecaptchaV3 sample_env silent_net (Some (JS ''tok'')) no_options
       = ([SiteverifyFetch (Some (JS ''tok'')) None 10000], 10000,
          Inr (VerifyFail [JS ''verify_timeout''] no_extras))
   \<and> timeoutMs (no_options\<lparr>timeoutMs := Some (Fin 250)\<rparr>) = Some (Fin (of_nat 250))
   \<and> net_latency (net_with 300 (Inr reply_plain)) = Some 300
   \<and> verifyRecaptchaV3 sample_env (net_with 300 (Inr reply_plain)) (Some (JS ''tok''))
         (no_options\<lparr>timeoutMs := Some (Fin 250)\<rparr>)
       = ([SiteverifyFetch (Some (JS ''tok'')) None 250], 250,
          Inr (VerifyFail [JS ''verify_timeout''] no_extras))
   \<and> net_latency (net_with 35 (Inl (External ''network''))) = Some 35
   \<and> verifyRecaptchaV3 sample_env (net_with 35 (Inl (External ''network'')))
         (Some (JS ''tok'')) no_options
       = ([SiteverifyFetch (Some (JS ''tok'')) None 10000], 35,
          Inr (VerifyFail [JS ''verify_request_failed''] no_extras))"
proof -
  let ?n = "net_with 35 (Inl (External ''network''))"
  let ?late = "net_with 300 (Inr reply_plain)"
  let ?o = "no_options\<lparr>timeoutMs := Some (Fin 250)\<rparr>"
  have h1: "RECAPTCHA_SECRET sample_env \<noteq> []"
    by (simp add: sample_defs config_defs)
  have h2: "truthy_opt (Some (JS ''tok''))"
    by simp
  have t: "timeoutMs no_options = None"
    by (simp add: sample_defs)
  have o: "timeoutMs ?o = Some (Fin (of_nat 250))" and ip: "remoteip ?o = None"
    and ip': "remoteip no_options = None"
    by (simp_all add: sample_defs)
  have s: "net_latency silent_net = None"
    by (simp add: sample_defs)
  have l: "net_latency ?n = Some 35" and r: "net_reply ?n = Inl (External ''network'')"
    and w: "net_latency ?late = Some 300"
    by (simp_all add: sample_defs)
  note a = bounded_call_never_retried [OF h1 h2, where opts = no_options and n = silent_net]
  note b = bounded_call_never_retried [OF h1 h2, where opts = "?o" and n = "?late"]
  note c = bounded_call_never_retried [OF h1 h2, where opts = no_options and n = "?n"]
  from a t have ba: "budget_of no_options = 10000"
    by blast
  from b o have bb: "budget_of ?o = 250"
    by simp
  have "verifyRecaptchaV3 sample_env silent_net (Some (JS ''tok'')) no_options
          = ([SiteverifyFetch (Some (JS ''tok'')) None 10000], 10000,
             Inr (VerifyFail [JS ''verify_timeout''] no_extras))"
    using a s ba ip' by (simp add: prod_eq_iff)
  moreover
  have "verifyRecaptchaV3 sample_env ?late (Some (JS ''tok'')) ?o
          = ([SiteverifyFetch (Some (JS ''tok'')) None 250], 250,
             Inr (VerifyFail [JS ''verify_timeout''] no_extras))"
    using b w bb ip by (simp add: prod_eq_iff)
  moreover
  have "verifyRecaptchaV3 sample_env ?n (Some (JS ''tok'')) no_options
          = ([SiteverifyFetch (Some (JS ''tok'')) None 10000], 35,
             Inr (VerifyFail [JS ''verify_request_failed''] no_extras))"
    using c l r ba ip' by (simp add: prod_eq_iff)
  ultimately show ?thesis
    using h1 h2 t s l o w by simp
qed

section \<open>The expected action\<close>

text \<open>
  Claim C8. In the action check of a reply with truthy \<^verbatim>\<open>success\<close>: when the system-wide
  expected action is configured (non-empty after trimming), it is the expected action
  and the caller's value changes nothing in the result; only when none is configured
  is the caller's value used (trimmed). When the resulting expected action is
  non-empty and differs from the action the upstream reported, the verifier rejects
  with the single reason \<^verbatim>\<open>unexpected_action\<close>. The route itself passes the environment
  variable, when set, in place of the action named in the request body.
\<close>

theorem configured_action_has_priority:
  assumes "RECAPTCHA_SECRET e \<noteq> []" and "truthy_opt token"
    and "timed_fetch (budget_of opts) n = (Inr j, t)" and "reply_success j"
  shows "(RECAPTCHA_EXPECTED_ACTION e \<noteq> [] \<longrightarrow>
            expected_action e opts = Inr (RECAPTCHA_EXPECTED_ACTION e)
          \<and> (\<forall>a. verifyRecaptchaV3 e n token (opts\<lparr>expectedAction := a\<rparr>)
                   = verifyRecaptchaV3 e n token opts))
       \<and> (RECAPTCHA_EXPECTED_ACTION e = [] \<longrightarrow>
            expected_action e opts
              = (if truthy_opt (expectedAction opts)
                 then (case expectedAction opts of Some (JStr s) \<Rightarrow> Inr (js_trim s)
                       | _ \<Rightarrow> Inl TypeError)
                 else Inr []))
       \<and> (\<forall>expected. expected_action e opts = Inr expected \<and> expected \<noteq> []
              \<and> reply_action j \<noteq> Some expected \<longrightarrow>
            snd (snd (verifyRecaptchaV3 e n token opts))
              = Inr (VerifyFail [JS ''unexpected_action''] (maybes j)))
       \<and> (or_empty (env_expected_action e) \<noteq> [] \<longrightarrow>
            expectedAction (route_options e req) = Some (JStr (or_empty (env_expected_action e))))"
proof (intro conjI allI impI)
  assume c: "RECAPTCHA_EXPECTED_ACTION e \<noteq> []"
  have "js_trim (RECAPTCHA_EXPECTED_ACTION e) = RECAPTCHA_EXPECTED_ACTION e"
    by (simp add: RECAPTCHA_EXPECTED_ACTION_def js_trim_idem)
  with c show "expected_action e opts = Inr (RECAPTCHA_EXPECTED_ACTION e)"
    by (simp add: expected_action_def)
next
  fix a assume c: "RECAPTCHA_EXPECTED_ACTION e \<noteq> []"
  then have "expected_action e (opts\<lparr>expectedAction := a\<rparr>) = expected_action e opts"
    by (simp add: expected_action_def)
  then have "check_reply e (opts\<lparr>expectedAction := a\<rparr>) = check_reply e opts"
    by (simp add: check_reply_def fun_eq_iff)
  then show "verifyRecaptchaV3 e n token (opts\<lparr>expectedAction := a\<rparr>)
               = verifyRecaptchaV3 e n token opts"
    by (simp add: verifyRecaptchaV3_def budget_defs Let_def split: prod.split sum.split)
next
  assume "RECAPTCHA_EXPECTED_ACTION e = []"
  then show "expected_action e opts
              = (if truthy_opt (expectedAction opts)
                 then (case expectedAction opts of Some (JStr s) \<Rightarrow> Inr (js_trim s)
                       | _ \<Rightarrow> Inl TypeError)
                 else Inr [])"
    by (simp add: expected_action_def js_trim_def)
next
  fix expected
  assume "expected_action e opts = Inr expected \<and> expected \<noteq> []
          \<and> reply_action j \<noteq> Some expected"
  then show "snd (snd (verifyRecaptchaV3 e n token opts))
               = Inr (VerifyFail [JS ''unexpected_action''] (maybes j))"
    using verify_on_reply [OF assms(1-3)] assms(4)
    by (simp add: check_reply_def action_mismatch_def)
next
  assume "or_empty (env_expected_action e) \<noteq> []"
  then show "expectedAction (route_options e req)
               = Some (JStr (or_empty (env_expected_action e)))"
    by (simp add: route_options_def route_expectedAction_def)
qed

theorem configured_action_has_priority_witness:
  "RECAPTCHA_SECRET strict_env \<noteq> [] \<and> truthy_opt (Some (JS ''tok''))
   \<and> timed_fetch (budget_of (no_options\<lparr>expectedAction := Some (JS ''login'')\<rparr>))
        (net_with 120 (Inr reply_bad)) = (Inr reply_bad, 120)
   \<and> reply_success reply_bad \<and> RECAPTCHA_EXPECTED_ACTION strict_env = str ''reserve''
   \<and> reply_action reply_bad = Some (str ''login'')
   \<and> expected_action strict_env (no_options\<lparr>expectedAction := Some (JS ''login'')\<rparr>)
       = Inr (str ''reserve'')
   \<and> snd (snd (verifyRecaptchaV3 strict_env (net_with 120 (Inr reply_bad)) (Some (JS ''tok''))
                  (no_options\<lparr>expectedAction := Some (JS ''login'')\<rparr>)))
       = Inr (VerifyFail [JS ''unexpected_action''] (maybes reply_bad))
   \<and> expectedAction (route_options strict_env token_request) = Some (JS '' reserve '')"
proof -
  let ?n = "net_with 120 (Inr reply_bad)"
  let ?o = "no_options\<lparr>expectedAction := Some (JS ''login'')\<rparr>"
  have h1: "RECAPTCHA_SECRET strict_env \<noteq> []"
    by (simp add: sample_defs config_defs)
  have h2: "truthy_opt (Some (JS ''tok''))"
    by simp
  have f: "timed_fetch (budget_of ?o) ?n = (Inr reply_bad, 120)"
    by (simp add: timed_fetch_def budget_defs sample_defs)
  have s: "reply_success reply_bad" and ra: "reply_action reply_bad = Some (str ''login'')"
    by (simp_all add: sample_defs reply_defs)
  have c: "RECAPTCHA_EXPECTED_ACTION strict_env = str ''reserve''"
    by (simp add: sample_defs config_defs)
  have raw: "or_empty (env_expected_action strict_env) = str '' reserve ''"
    by (simp add: sample_defs)
  note th = configured_action_has_priority [OF h1 h2 f s, where req = token_request]
  from th c have ex: "expected_action strict_env ?o = Inr (str ''reserve'')"
    by simp
  with th ra have "snd (snd (verifyRecaptchaV3 strict_env ?n (Some (JS ''tok'')) ?o))
                     = Inr (VerifyFail [JS ''unexpected_action''] (maybes reply_bad))"
    by simp
  moreover from th raw
  have "expectedAction (route_options strict_env token_request) = Some (JS '' reserve '')"
    by simp
  ultimately show ?thesis
    using h1 h2 f s c ra ex by simp
qed

section \<open>Properties of the mailer\<close>

lemma send_events:
  "fst (sendReservationEmail me p) = [] \<or> (\<exists>m. fst (sendReservationEmail me p) = [SendMail m])"
  by (auto simp: sendReservationEmail_def Let_def split: option.splits sum.splits prod.splits)







section \<open>Properties of the routes\<close>

lemma verify_events_fetch_only:
  "ev \<in> set (fst (verifyRecaptchaV3 e n token opts)) \<Longrightarrow> \<exists>a b c. ev = SiteverifyFetch a b c"
  by (auto simp: verifyRecaptchaV3_def Let_def split: if_splits prod.splits sum.splits)

lemma create_verify_events:
  "fst (create_verify e w req) =
     (if truthy_opt (recaptchaToken req)
      then fst (verifyRecaptchaV3 e (w_net w) (recaptchaToken req) (route_options e req))
      else [])"
  by (auto simp: create_verify_def split: prod.splits sum.splits RecaptchaVerifyResult.splits)

lemma create_verify_outcome:
  "snd (create_verify e w req) =
     (if truthy_opt (recaptchaToken req)
      then (case verify_result e w req of
              Inl ex \<Rightarrow> Inl ex
            | Inr (VerifyOk x) \<Rightarrow> Inr None
            | Inr (VerifyFail rs x) \<Rightarrow>
                Inr (Some \<lparr>status = 200, body = RecaptchaFailedBody (VerifyFail rs x)\<rparr>))
      else Inr None)"
  by (auto simp: create_verify_def verify_result_def
      split: prod.splits sum.splits RecaptchaVerifyResult.splits)

lemma create_verify_no_query:
  "ev \<in> set (fst (create_verify e w req)) \<Longrightarrow> \<not> is_query ev"
  using verify_events_fetch_only
  by (fastforce simp: create_verify_events split: if_splits)

lemma create_verify_no_mail:
  "dispatches (fst (create_verify e w req)) = []"
  by (auto simp: create_verify_events verifyRecaptchaV3_def Let_def
      split: if_splits prod.splits sum.splits)

lemma create_validate_cases:
  "create_validate l req =
     (if nullish (req_body req) then Inl TypeError
      else (case schema_result l req of
              Inl fieldErrors \<Rightarrow> Inr (Inl \<lparr>status = 400, body = ValidationErrorBody fieldErrors\<rparr>)
            | Inr parsed \<Rightarrow>
                (case phone_result l req of
                   None \<Rightarrow> Inr (Inl \<lparr>status = 400, body = InvalidPhoneBody\<rparr>)
                 | Some ph \<Rightarrow> Inr (Inr (parsed, ph)))))"
  by (auto simp: create_validate_def schema_result_def phone_result_def
      split: sum.splits option.splits)


lemma create_try_cleared:
  assumes "cleared e l w req"
  obtains parsed ph where "schema_result l req = Inr parsed" and "phone_result l req = Some ph"
    and "createReservation_try e l w req =
           (fst (create_verify e w req) @ fst (create_delegate w parsed ph),
            snd (create_delegate w parsed ph))"
proof -
  from assms obtain ph where ph: "phone_result l req = Some ph"
    by (auto simp: cleared_def)
  then obtain parsed where parsed: "schema_result l req = Inr parsed"
    by (auto simp: phone_result_def split: sum.splits)
  from assms have body: "\<not> nullish (req_body req)"
    by (simp add: cleared_def)
  have v: "create_validate l req = Inr (Inr (parsed, ph))"
    using body ph parsed by (simp add: create_validate_cases)
  have "snd (create_verify e w req) = Inr None"
    using assms
    by (cases "verify_result e w req" rule: accepted.cases)
       (auto simp: create_verify_outcome cleared_def)
  then have "createReservation_try e l w req =
           (fst (create_verify e w req) @ fst (create_delegate w parsed ph),
            snd (create_delegate w parsed ph))"
    by (cases "create_verify e w req"; cases "create_delegate w parsed ph")
       (simp add: createReservation_try_def v)
  with parsed ph show thesis
    by (rule that)
qed

lemma create_delegate_events:
  "fst (create_delegate w parsed ph) =
     QueryCreate \<lparr>u_name = d_name parsed, u_surname = d_surname parsed,
                  u_phone = pn_number ph, u_email = d_email parsed\<rparr>
     # (case w_db w of Inl ex \<Rightarrow> []
        | Inr row \<Rightarrow> fst (create_respond (w_mail w) (result_or_default row)))"
  by (auto simp: create_delegate_def Let_def split: sum.splits prod.splits)

lemma create_delegate_outcome:
  "snd (create_delegate w parsed ph) =
     (case w_db w of Inl ex \<Rightarrow> Inl ex
      | Inr row \<Rightarrow> snd (create_respond (w_mail w) (result_or_default row)))"
  by (auto simp: create_delegate_def Let_def split: sum.splits prod.splits)

lemma create_respond_events:
  "fst (create_respond me result) =
     (if js_get result ''code'' = Some (JS ''CREATED_ACTIVE'')
         \<or> js_get result ''code'' = Some (JS ''CREATED_PENDING'')
      then fst (sendReservationEmail me (Some result)) else [])"
  by (auto simp: create_respond_def Let_def split: sum.splits prod.splits)

lemma create_respond_no_query:
  "ev \<in> set (fst (create_respond me result)) \<Longrightarrow> \<not> is_query ev"
  using send_events [of me "Some result"]
  by (auto simp: create_respond_events split: if_splits)

lemma create_try_not_cleared:
  assumes "\<not> cleared e l w req"
  shows "(\<forall>ev \<in> set (fst (createReservation e l w req)). \<not> is_query ev)
       \<and> rejection (snd (createReservation e l w req))"
proof (cases "create_validate l req")
  case (Inl ex)
  then show ?thesis
    by (simp add: createReservation_def createReservation_try_def server_error_def rejection_def)
next
  case (Inr v)
  show ?thesis
  proof (cases v)
    case (Inl r)
    with Inr have "r = \<lparr>status = 400, body = InvalidPhoneBody\<rparr>
                   \<or> (\<exists>fs. r = \<lparr>status = 400, body = ValidationErrorBody fs\<rparr>)"
      by (auto simp: create_validate_cases split: if_splits sum.splits option.splits)
    with Inl Inr show ?thesis
      by (auto simp: createReservation_def createReservation_try_def rejection_def)
  next
    case (Inr pp)
    obtain parsed ph where pp: "pp = (parsed, ph)"
      by (cases pp)
    from \<open>create_validate l req = Inr v\<close> Inr pp
    have ok: "\<not> nullish (req_body req)" "phone_result l req \<noteq> None"
      by (auto simp: create_validate_cases split: if_splits sum.splits option.splits)
    with assms have t: "truthy_opt (recaptchaToken req)"
      and na: "\<not> accepted (verify_result e w req)"
      by (auto simp: cleared_def)
    have q: "\<forall>ev \<in> set (fst (create_verify e w req)). \<not> is_query ev"
      using create_verify_no_query by blast
    from na have "(\<exists>ex. snd (create_verify e w req) = Inl ex)
        \<or> (\<exists>rs x. snd (create_verify e w req) =
              Inr (Some \<lparr>status = 200, body = RecaptchaFailedBody (VerifyFail rs x)\<rparr>))"
      using t
      by (cases "verify_result e w req" rule: accepted.cases)
         (auto simp: create_verify_outcome)
    then show ?thesis
      using q \<open>create_validate l req = Inr v\<close> Inr pp
      by (cases "create_verify e w req")
         (auto simp: createReservation_def createReservation_try_def rejection_def
            server_error_def)
  qed
qed

text \<open>
  Claim C1. In \<^verbatim>\<open>POST /createReservation\<close> a database call is made only for a cleared
  request: the body is there, the schema accepted the identity fields, the phone
  number parsed and is valid, and, when a truthy token came with the request, the
  verifier accepted it. A request that is not cleared makes no database call at all and
  is answered with a rejection (400, 500, or the 200 envelope of a failed risk check).
  A cleared request makes exactly one database call, with the validated data.
\<close>

theorem backend_only_after_clearance:
  "((\<exists>ev \<in> set (fst (createReservation e l w req)). is_query ev) \<longrightarrow> cleared e l w req)
   \<and> (\<not> cleared e l w req \<longrightarrow>
        (\<forall>ev \<in> set (fst (createReservation e l w req)). \<not> is_query ev)
        \<and> rejection (snd (createReservation e l w req)))
   \<and> (cleared e l w req \<longrightarrow>
        filter is_query (fst (createReservation e l w req)) = [QueryCreate (built_payload l req)])"
proof -
  have one: "filter is_query (fst (createReservation e l w req)) = [QueryCreate (built_payload l req)]"
    if c: "cleared e l w req"
  proof -
    from c obtain parsed ph where p: "schema_result l req = Inr parsed"
    and ph: "phone_result l req = Some ph"
    and t: "createReservation_try e l w req =
           (fst (create_verify e w req) @ fst (create_delegate w parsed ph),
            snd (create_delegate w parsed ph))"
    by (rule create_try_cleared)
  have a: "filter is_query (fst (create_verify e w req)) = []"
    using create_verify_no_query by (auto simp: filter_empty_conv)
  have b: "filter is_query (case w_db w of Inl ex \<Rightarrow> []
        | Inr row \<Rightarrow> fst (create_respond (w_mail w) (result_or_default row))) = []"
    using create_respond_no_query by (auto simp: filter_empty_conv split: sum.splits)
  have "fst (createReservation e l w req)
          = fst (create_verify e w req) @ fst (create_delegate w parsed ph)"
    using t by (cases "snd (create_delegate w parsed ph)") (simp_all add: createReservation_def)
  then show ?thesis
    using a b p ph by (simp add: create_delegate_events built_payload_def)
  qed
  show ?thesis
    using create_try_not_cleared [of e l w req] one by blast
qed


lemmas schema_defs =
  schema_result_def phone_result_def UserSchema_safeParse_def z_string_trim_def
  z_min1_max80_def z_email_def recaptchaToken_def recaptchaActionFromBody_def
  nullish_to_undefined_def route_options_def route_expectedAction_def verify_result_def

lemmas route_defs =
  createReservation_def createReservation_try_def create_validate_def create_verify_def
  create_delegate_def create_respond_def result_or_default_def server_error_def
  verifyRecaptchaV3_def timed_fetch_def budget_defs check_reply_def no_extras_def

lemmas mailer_defs =
  sendReservationEmail_def select_templates_def resolve_both_def resolveTemplatePath_def
  render_both_def Emailsubject_def

theorem backend_only_after_clearance_witness:
  "\<not> cleared sample_env sample_libs
        (world_with silent_net (Inr (Some (outcome ''CREATED_ACTIVE''))) good_mail_env)
        bad_phone_request
   \<and> createReservation sample_env sample_libs
        (world_with silent_net (Inr (Some (outcome ''CREATED_ACTIVE''))) good_mail_env)
        bad_phone_request
       = ([], \<lparr>status = 400, body = InvalidPhoneBody\<rparr>)
   \<and> cleared sample_env sample_libs
        (world_with silent_net (Inr (Some (outcome ''DUPLICATE_SAME_DATETIME''))) good_mail_env)
        sample_request
   \<and> createReservation sample_env sample_libs
        (world_with silent_net (Inr (Some (outcome ''DUPLICATE_SAME_DATETIME''))) good_mail_env)
        sample_request
       = ([QueryCreate \<lparr>u_name = str ''A'', u_surname = str ''B'', u_phone = str ''+306912345678'',
                        u_email = str ''a@b.com''\<rparr>],
          \<lparr>status = 409, body = ResultBody (outcome ''DUPLICATE_SAME_DATETIME'')\<rparr>)"
proof -
  let ?w1 = "world_with silent_net (Inr (Some (outcome ''CREATED_ACTIVE''))) good_mail_env"
  let ?w2 = "world_with silent_net (Inr (Some (outcome ''DUPLICATE_SAME_DATETIME''))) good_mail_env"
  have n: "\<not> cleared sample_env sample_libs ?w1 bad_phone_request"
    by (simp add: cleared_def schema_defs sample_defs js_trim_def js_whitespace_def)
  have c: "cleared sample_env sample_libs ?w2 sample_request"
    by (simp add: cleared_def schema_defs sample_defs js_trim_def js_whitespace_def)
  have r1: "createReservation sample_env sample_libs ?w1 bad_phone_request
              = ([], \<lparr>status = 400, body = InvalidPhoneBody\<rparr>)"
    by (simp add: route_defs schema_defs sample_defs js_trim_def js_whitespace_def)
  have r2: "createReservation sample_env sample_libs ?w2 sample_request
       = ([QueryCreate \<lparr>u_name = str ''A'', u_surname = str ''B'', u_phone = str ''+306912345678'',
                        u_email = str ''a@b.com''\<rparr>],
          \<lparr>status = 409, body = ResultBody (outcome ''DUPLICATE_SAME_DATETIME'')\<rparr>)"
    by (simp add: route_defs schema_defs sample_defs js_trim_def js_whitespace_def)
  note t1 = backend_only_after_clearance [of sample_env sample_libs ?w1 bad_phone_request]
  note t2 = backend_only_after_clearance [of sample_env sample_libs ?w2 sample_request]
  from t1 n have "rejection (snd (createReservation sample_env sample_libs ?w1 bad_phone_request))"
    by blast
  moreover from t2 c
  have "filter is_query (fst (createReservation sample_env sample_libs ?w2 sample_request))
          = [QueryCreate (built_payload sample_libs sample_request)]"
    by blast
  ultimately show ?thesis
    using n c r1 r2 by simp
qed

section \<open>The envelope of a failed risk check\<close>

text \<open>
  Claim C7. When the request passed validation, carries a truthy token, and the verifier
  returns a rejection, the route answers with status 200 and the body
  \<^verbatim>\<open>{ok: false, code: "RECAPTCHA_FAILED", info, meta}\<close> where \<^verbatim>\<open>meta\<close> is the verifier's
  result with its reasons; the body has no field-error list, and no database call is
  made.
\<close>

theorem risk_rejection_is_soft:
  assumes "\<not> nullish (req_body req)" and "phone_result l req \<noteq> None"
    and "truthy_opt (recaptchaToken req)"
    and "verify_result e w req = Inr (VerifyFail rs x)"
  shows "snd (createReservation e l w req)
           = \<lparr>status = 200, body = RecaptchaFailedBody (VerifyFail rs x)\<rparr>
       \<and> body_ok (body (snd (createReservation e l w req))) = Some (JBool False)
       \<and> body_code (body (snd (createReservation e l w req))) = Some (JS ''RECAPTCHA_FAILED'')
       \<and> body_meta (body (snd (createReservation e l w req))) = Some (VerifyFail rs x)
       \<and> body_errors (body (snd (createReservation e l w req))) = None
       \<and> filter is_query (fst (createReservation e l w req)) = []"
proof -
  from assms(2) obtain ph where ph: "phone_result l req = Some ph"
    by blast
  then obtain parsed where parsed: "schema_result l req = Inr parsed"
    by (auto simp: phone_result_def split: sum.splits)
  have v: "create_validate l req = Inr (Inr (parsed, ph))"
    using assms(1) ph parsed by (simp add: create_validate_cases)
  have o: "snd (create_verify e w req)
             = Inr (Some \<lparr>status = 200, body = RecaptchaFailedBody (VerifyFail rs x)\<rparr>)"
    using assms(3,4) by (simp add: create_verify_outcome)
  have r: "createReservation e l w req
          = (fst (create_verify e w req),
             \<lparr>status = 200, body = RecaptchaFailedBody (VerifyFail rs x)\<rparr>)"
    using o v
    by (cases "create_verify e w req") (simp add: createReservation_def createReservation_try_def)
  have "filter is_query (fst (create_verify e w req)) = []"
    using create_verify_no_query by (auto simp: filter_empty_conv)
  with r show ?thesis
    by simp
qed

theorem risk_rejection_is_soft_witness:
  "\<not> nullish (req_body token_request) \<and> phone_result sample_libs token_request \<noteq> None
   \<and> truthy_opt (recaptchaToken token_request)
   \<and> verify_result sample_env
        (world_with (net_with 80 (Inr reply_failed)) (Inr (Some (outcome ''CREATED_ACTIVE'')))
           good_mail_env) token_request
       = Inr (VerifyFail [JS ''timeout-or-duplicate''] no_extras)
   \<and> createReservation sample_env sample_libs
        (world_with (net_with 80 (Inr reply_failed)) (Inr (Some (outcome ''CREATED_ACTIVE'')))
           good_mail_env) token_request
       = ([SiteverifyFetch (Some (JS ''tok'')) (Some (str ''10.0.0.1'')) 10000],
          \<lparr>status = 200,
           body = RecaptchaFailedBody (VerifyFail [JS ''timeout-or-duplicate''] no_extras)\<rparr>)"
proof -
  let ?w = "world_with (net_with 80 (Inr reply_failed)) (Inr (Some (outcome ''CREATED_ACTIVE'')))
              good_mail_env"
  have h1: "\<not> nullish (req_body token_request)"
    by (simp add: sample_defs)
  have h2: "phone_result sample_libs token_request \<noteq> None"
    by (simp add: schema_defs sample_defs js_trim_def js_whitespace_def)
  have h3: "truthy_opt (recaptchaToken token_request)"
    by (simp add: schema_defs sample_defs)
  have h4: "verify_result sample_env ?w token_request
              = Inr (VerifyFail [JS ''timeout-or-duplicate''] no_extras)"
    by (simp add: route_defs schema_defs sample_defs config_defs reply_defs)
  have tr: "fst (createReservation sample_env sample_libs ?w token_request)
              = [SiteverifyFetch (Some (JS ''tok'')) (Some (str ''10.0.0.1'')) 10000]"
    by (simp add: route_defs schema_defs sample_defs config_defs reply_defs)
  from risk_rejection_is_soft [OF h1 h2 h3 h4]
  have "snd (createReservation sample_env sample_libs ?w token_request)
          = \<lparr>status = 200,
             body = RecaptchaFailedBody (VerifyFail [JS ''timeout-or-duplicate''] no_extras)\<rparr>"
    by blast
  with tr h1 h2 h3 h4 show ?thesis
    by (simp add: prod_eq_iff)
qed



section \<open>The mailer on a code it has no mail for\<close>




section \<open>The mails of a request\<close>

lemma dispatches_append: "dispatches (xs @ ys) = dispatches xs @ dispatches ys"
  by (induction xs rule: dispatches.induct) simp_all

lemma send_dispatches_le_1: "length (dispatches (fst (sendReservationEmail me p))) \<le> 1"
  using send_events [of me p] by auto

lemma create_trace_not_cleared:
  assumes "\<not> cleared e l w req"
  shows "fst (createReservation e l w req) = []
       \<or> fst (createReservation e l w req) = fst (create_verify e w req)"
proof (cases "create_validate l req")
  case (Inl ex)
  then show ?thesis
    by (simp add: createReservation_def createReservation_try_def)
next
  case (Inr v)
  show ?thesis
  proof (cases v)
    case (Inl r)
    with Inr show ?thesis
      by (simp add: createReservation_def createReservation_try_def)
  next
    case (Inr pp)
    obtain parsed ph where pp: "pp = (parsed, ph)"
      by (cases pp)
    from \<open>create_validate l req = Inr v\<close> Inr pp
    have ok: "\<not> nullish (req_body req)" "phone_result l req \<noteq> None"
      by (auto simp: create_validate_cases split: if_splits sum.splits option.splits)
    with assms have t: "truthy_opt (recaptchaToken req)"
      and na: "\<not> accepted (verify_result e w req)"
      by (auto simp: cleared_def)
    from na have "snd (create_verify e w req) \<noteq> Inr None"
      using t
      by (cases "verify_result e w req" rule: accepted.cases)
         (auto simp: create_verify_outcome)
    then show ?thesis
      using \<open>create_validate l req = Inr v\<close> Inr pp
      by (cases "create_verify e w req")
         (auto simp: createReservation_def createReservation_try_def
            split: sum.splits option.splits)
  qed
qed

lemma create_dispatches:
  "dispatches (fst (createReservation e l w req)) =
     (if cleared e l w req then
        (case w_db w of
           Inl ex \<Rightarrow> []
         | Inr row \<Rightarrow> dispatches (fst (create_respond (w_mail w) (result_or_default row))))
      else [])"
proof (cases "cleared e l w req")
  case False
  with create_trace_not_cleared [OF False] create_verify_no_mail [of e w req] show ?thesis
    by auto
next
  case True
  then obtain parsed ph where
    t: "createReservation_try e l w req =
           (fst (create_verify e w req) @ fst (create_delegate w parsed ph),
            snd (create_delegate w parsed ph))"
    by (rule create_try_cleared)
  have "fst (createReservation e l w req)
          = fst (create_verify e w req) @ fst (create_delegate w parsed ph)"
    using t by (cases "snd (create_delegate w parsed ph)") (simp_all add: createReservation_def)
  with True show ?thesis
    by (simp add: dispatches_append create_verify_no_mail create_delegate_events
        split: sum.splits)
qed





section \<open>A mailer that throws\<close>

lemma create_response_cleared:
  assumes "cleared e l w req" and "w_db w = Inr row"
  shows "snd (createReservation e l w req) =
           (case snd (create_respond (w_mail w) (result_or_default row)) of
              Inl ex \<Rightarrow> server_error
            | Inr r \<Rightarrow> r)"
proof -
  from assms(1) obtain parsed ph where
    t: "createReservation_try e l w req =
           (fst (create_verify e w req) @ fst (create_delegate w parsed ph),
            snd (create_delegate w parsed ph))"
    by (rule create_try_cleared)
  show ?thesis
    using t assms(2)
    by (cases "snd (create_respond (w_mail w) (result_or_default row))")
       (simp_all add: createReservation_def create_delegate_outcome)
qed

lemma create_respond_mailed:
  assumes "js_get result ''code'' = Some (JS ''CREATED_ACTIVE'')
           \<or> js_get result ''code'' = Some (JS ''CREATED_PENDING'')"
  shows "snd (create_respond me result) =
           (case snd (sendReservationEmail me (Some result)) of
              Inl ex \<Rightarrow> Inl ex
            | Inr u \<Rightarrow> Inr \<lparr>status = 200, body = ResultBody result\<rparr>)"
  using assms
  by (auto simp: create_respond_def Let_def split: prod.splits sum.splits)

text \<open>
  Claim C2 as stated says that a mail dispatch that throws leaves the success response
  in place. The route awaits the mailer inside its \<^verbatim>\<open>try\<close> block, before it sends the
  response: with the code \<^verbatim>\<open>CREATED_ACTIVE\<close> and an SMTP transport that throws, the query
  and the dispatch are made and the response is the 500 of the \<^verbatim>\<open>catch\<close>.
\<close>

theorem smtp_failure_gives_500_counterexample:
  "js_get (outcome ''CREATED_ACTIVE'') ''code'' = Some (JS ''CREATED_ACTIVE'')
   \<and> sendReservationEmail (good_mail_env\<lparr>smtp_ok := False\<rparr>) (Some (outcome ''CREATED_ACTIVE''))
       = ([SendMail \<lparr>mail_to = Some (JS ''a@b.com''), mail_subject = Some SubjectConfirmation,
                     mail_html = ''created_active.html'', mail_text = ''created_active.txt'',
                     mail_qr = True\<rparr>],
          Inl (External ''smtp''))
   \<and> createReservation sample_env sample_libs
        (world_with silent_net (Inr (Some (outcome ''CREATED_ACTIVE'')))
           (good_mail_env\<lparr>smtp_ok := False\<rparr>))
        sample_request
       = ([QueryCreate \<lparr>u_name = str ''A'', u_surname = str ''B'', u_phone = str ''+306912345678'',
                        u_email = str ''a@b.com''\<rparr>,
           SendMail \<lparr>mail_to = Some (JS ''a@b.com''), mail_subject = Some SubjectConfirmation,
                     mail_html = ''created_active.html'', mail_text = ''created_active.txt'',
                     mail_qr = True\<rparr>],
          \<lparr>status = 500, body = ServerErrorBody\<rparr>)"
  by (simp add: route_defs schema_defs mailer_defs sample_defs js_trim_def js_whitespace_def)

text \<open>
  Claim C2, amended. When a cleared request gets the code \<^verbatim>\<open>CREATED_ACTIVE\<close> or
  \<^verbatim>\<open>CREATED_PENDING\<close> from the backend, the mailer is run once before the response is sent
  (at most one mail is dispatched): when it returns, the response is 200 with the
  backend's result; when it throws, in its preparation or in the dispatch itself, the
  response is the 500 server-error body and the backend's result is not returned.
\<close>

theorem mailer_failure_becomes_server_error:
  assumes "cleared e l w req" and "w_db w = Inr row"
    and "js_get (result_or_default row) ''code'' = Some (JS ''CREATED_ACTIVE'')
         \<or> js_get (result_or_default row) ''code'' = Some (JS ''CREATED_PENDING'')"
  shows "(\<forall>evs. sendReservationEmail (w_mail w) (Some (result_or_default row)) = (evs, Inr ()) \<longrightarrow>
            snd (createReservation e l w req)
              = \<lparr>status = 200, body = ResultBody (result_or_default row)\<rparr>)
       \<and> (\<forall>evs ex. sendReservationEmail (w_mail w) (Some (result_or_default row)) = (evs, Inl ex) \<longrightarrow>
            snd (createReservation e l w req) = \<lparr>status = 500, body = ServerErrorBody\<rparr>)
       \<and> dispatches (fst (createReservation e l w req))
           = dispatches (fst (sendReservationEmail (w_mail w) (Some (result_or_default row))))
       \<and> length (dispatches (fst (createReservation e l w req))) \<le> 1"
proof -
  note r = create_response_cleared [OF assms(1,2)] create_respond_mailed [OF assms(3)]
  have ok: "snd (createReservation e l w req)
              = \<lparr>status = 200, body = ResultBody (result_or_default row)\<rparr>"
    if "sendReservationEmail (w_mail w) (Some (result_or_default row)) = (evs, Inr ())" for evs
    using that by (simp add: r)
  have ko: "snd (createReservation e l w req) = \<lparr>status = 500, body = ServerErrorBody\<rparr>"
    if "sendReservationEmail (w_mail w) (Some (result_or_default row)) = (evs, Inl ex)" for evs ex
    using that by (simp add: r server_error_def)
  have d: "dispatches (fst (createReservation e l w req))
           = dispatches (fst (sendReservationEmail (w_mail w) (Some (result_or_default row))))"
    using assms by (auto simp: create_dispatches create_respond_events)
  from ok ko d send_dispatches_le_1 [of "w_mail w" "Some (result_or_default row)"]
  show ?thesis
    by simp
qed

theorem mailer_failure_becomes_server_error_witness:
  "cleared sample_env sample_libs
      (world_with silent_net (Inr (Some (outcome ''CREATED_PENDING'')))
         (good_mail_env\<lparr>smtp_ok := False\<rparr>)) sample_request
   \<and> js_get (result_or_default (Some (outcome ''CREATED_PENDING''))) ''code''
       = Some (JS ''CREATED_PENDING'')
   \<and> snd (sendReservationEmail (good_mail_env\<lparr>smtp_ok := False\<rparr>)
            (Some (outcome ''CREATED_PENDING''))) = Inl (External ''smtp'')
   \<and> snd (createReservation sample_env sample_libs
        (world_with silent_net (Inr (Some (outcome ''CREATED_PENDING'')))
           (good_mail_env\<lparr>smtp_ok := False\<rparr>)) sample_request)
       = \<lparr>status = 500, body = ServerErrorBody\<rparr>
   \<and> snd (sendReservationEmail good_mail_env (Some (outcome ''CREATED_PENDING''))) = Inr ()
   \<and> snd (createReservation sample_env sample_libs
        (world_with silent_net (Inr (Some (outcome ''CREATED_PENDING''))) good_mail_env)
        sample_request)
       = \<lparr>status = 200, body = ResultBody (outcome ''CREATED_PENDING'')\<rparr>"
proof -
  let ?bad = "good_mail_env\<lparr>smtp_ok := False\<rparr>"
  let ?row = "Some (outcome ''CREATED_PENDING'')"
  let ?w = "\<lambda>m. world_with silent_net (Inr ?row) m"
  have cl: "cleared sample_env sample_libs (?w m) sample_request" for m
    by (simp add: cleared_def schema_defs sample_defs js_trim_def js_whitespace_def)
  have db: "w_db (?w m) = Inr ?row" and me: "w_mail (?w m) = m" for m
    by (simp_all add: world_with_def)
  have res: "result_or_default ?row = outcome ''CREATED_PENDING''"
    by (simp add: result_or_default_def outcome_def)
  have code: "js_get (result_or_default ?row) ''code'' = Some (JS ''CREATED_PENDING'')"
    by (simp add: res) (simp add: outcome_def)
  obtain evs where bad: "sendReservationEmail ?bad ?row = (evs, Inl (External ''smtp''))"
    by (simp add: mailer_defs sample_defs)
  obtain evs' where good: "sendReservationEmail good_mail_env ?row = (evs', Inr ())"
    by (simp add: mailer_defs sample_defs)
  note tb = mailer_failure_becomes_server_error [OF cl db, of ?bad]
  note tg = mailer_failure_becomes_server_error [OF cl db, of good_mail_env]
  have "snd (createReservation sample_env sample_libs (?w ?bad) sample_request)
          = \<lparr>status = 500, body = ServerErrorBody\<rparr>"
    using tb code bad by (simp add: me res)
  moreover
  have "snd (createReservation sample_env sample_libs (?w good_mail_env) sample_request)
          = \<lparr>status = 200, body = ResultBody (outcome ''CREATED_PENDING'')\<rparr>"
    using tg code good by (simp add: me res)
  ultimately show ?thesis
    using cl [of ?bad] code bad good by simp
qed



section \<open>The earlier order of the expected action\<close>

text \<open>
  The earlier variant lets the caller's value override the configured one; the route,
  which passes the environment variable first, gets the same expected action from
  both variants on every request.
\<close>

lemma earlier_order_prefers_caller:
  "expected_action_earlier strict_env (no_options\<lparr>expectedAction := Some (JS ''login'')\<rparr>)
     = Inr (str ''login'')"
  by (simp add: expected_action_earlier_def sample_defs config_defs)

lemma earlier_order_same_through_route:
  "expected_action_earlier e (route_options e req) = expected_action e (route_options e req)"
proof (cases "or_empty (env_expected_action e) = []")
  case True
  then have "RECAPTCHA_EXPECTED_ACTION e = []"
    by (simp add: RECAPTCHA_EXPECTED_ACTION_def js_trim_def)
  then show ?thesis
    by (simp add: expected_action_earlier_def expected_action_def)
next
  case False
  then have o: "expectedAction (route_options e req) = Some (JStr (or_empty (env_expected_action e)))"
    by (simp add: route_options_def route_expectedAction_def)
  have i: "js_trim (RECAPTCHA_EXPECTED_ACTION e) = js_trim (or_empty (env_expected_action e))"
    by (simp add: RECAPTCHA_EXPECTED_ACTION_def js_trim_idem)
  show ?thesis
    using False o i
    by (simp add: expected_action_earlier_def expected_action_def RECAPTCHA_EXPECTED_ACTION_def)
qed

section \<open>The status of a backend result\<close>

lemma cancel_response:
  assumes "w_db w = Inr row"
  shows "snd (cancelReservation w req) =
           (case snd (cancel_respond (w_mail w) (result_or_default row)) of
              Inl ex \<Rightarrow> server_error
            | Inr r \<Rightarrow> r)"
proof -
  obtain evs r where c: "cancel_respond (w_mail w) (result_or_default row) = (evs, r)"
    by (cases "cancel_respond (w_mail w) (result_or_default row)")
  with assms show ?thesis
    by (cases r) (simp_all add: cancelReservation_def)
qed

lemma confirm_response:
  assumes "w_db w = Inr row"
  shows "snd (confirmReservation w req) =
           (case snd (confirm_respond (w_mail w) (result_or_default row)) of
              Inl ex \<Rightarrow> server_error
            | Inr r \<Rightarrow> r)"
proof -
  obtain evs r where c: "confirm_respond (w_mail w) (result_or_default row) = (evs, r)"
    by (cases "confirm_respond (w_mail w) (result_or_default row)")
  with assms show ?thesis
    by (cases r) (simp_all add: confirmReservation_def)
qed

lemma create_respond_outcome:
  "snd (create_respond me result) =
     (if js_get result ''code'' = Some (JS ''CREATED_ACTIVE'')
         \<or> js_get result ''code'' = Some (JS ''CREATED_PENDING'') then
        (case snd (sendReservationEmail me (Some result)) of
           Inl ex \<Rightarrow> Inl ex
         | Inr u \<Rightarrow> Inr \<lparr>status = 200, body = ResultBody result\<rparr>)
      else if js_get result ''code'' = Some (JS ''DUPLICATE_SAME_DATETIME'') then
        Inr \<lparr>status = 409, body = ResultBody result\<rparr>
      else if js_get result ''code'' = Some (JS ''PERFORMANCE_THEATER_NOT_FOUND'')
            \<or> js_get result ''code'' = Some (JS ''PERFORMANCE_DATETIME_NOT_FOUND'') then
        Inr \<lparr>status = 404, body = ResultBody result\<rparr>
      else Inr \<lparr>status = 400, body = ResultBody result\<rparr>)"
  by (auto simp: create_respond_def Let_def split: prod.splits sum.splits)

lemma cancel_respond_outcome:
  "snd (cancel_respond me result) =
     (if js_get result ''code'' = Some (JS ''CREATED_CANCELED'') then
        (case snd (sendReservationEmail me (Some result)) of
           Inl ex \<Rightarrow> Inl ex
         | Inr u \<Rightarrow> Inr \<lparr>status = 200, body = ResultBody result\<rparr>)
      else if js_get result ''code'' = Some (JS ''NO_RESERVATION'') then
        Inr \<lparr>status = 404, body = ResultBody result\<rparr>
      else if js_get result ''code'' = Some (JS ''NO_PERMISSION'') then
        Inr \<lparr>status = 403, body = ResultBody result\<rparr>
      else Inr \<lparr>status = 400, body = ResultBody result\<rparr>)"
  by (auto simp: cancel_respond_def split: prod.splits sum.splits)

lemma confirm_respond_outcome:
  "snd (confirm_respond me result) =
     (if js_get result ''code'' = Some (JS ''CREATED_ACTIVE'') then
        (case snd (sendReservationEmail me (Some result)) of
           Inl ex \<Rightarrow> Inl ex
         | Inr u \<Rightarrow> Inr \<lparr>status = 200, body = ResultBody result\<rparr>)
      else Inr \<lparr>status = 200, body = ResultBody result\<rparr>)"
  by (auto simp: confirm_respond_def split: prod.splits sum.splits)

text \<open>
  Claim C3 as stated says that in every route that branches on the backend's code an
  unrecognised code is answered with 400 and never with a success status. \<^verbatim>\<open>GET /c/:id\<close>
  branches on the code (it mails on \<^verbatim>\<open>CREATED_ACTIVE\<close>) and answers a result with an
  unknown code with 200.
\<close>

theorem confirm_route_answers_200_counterexample:
  "js_get (bare_outcome ''NO_SUCH_CODE'') ''code'' = Some (JS ''NO_SUCH_CODE'')
   \<and> confirmReservation
        (world_with silent_net (Inr (Some (bare_outcome ''NO_SUCH_CODE''))) good_mail_env)
        sample_request
       = ([QueryConfirm (str ''r1'')],
          \<lparr>status = 200, body = ResultBody (bare_outcome ''NO_SUCH_CODE'')\<rparr>)
   \<and> status (snd (confirmReservation
        (world_with silent_net (Inr (Some (bare_outcome ''NO_SUCH_CODE''))) good_mail_env)
        sample_request)) \<noteq> 400"
  by (simp add: confirmReservation_def confirm_respond_def result_or_default_def sample_defs)

text \<open>
  Claim C3, amended. The status of a result that the backend returned is set per route.
  In \<^verbatim>\<open>POST /createReservation\<close>, for a cleared request: \<^verbatim>\<open>CREATED_ACTIVE\<close> and
  \<^verbatim>\<open>CREATED_PENDING\<close> are answered with 200 when the mailer returns and with 500 when it
  throws, \<^verbatim>\<open>DUPLICATE_SAME_DATETIME\<close> with 409, the two not-found codes with 404, and
  every other code (also \<^verbatim>\<open>NO_PERMISSION\<close> and any unrecognised or absent code) with 400;
  a 200 is sent only for the two created codes. In \<^verbatim>\<open>GET /d/:id\<close>:
  \<^verbatim>\<open>CREATED_CANCELED\<close> is answered with 200 when the mailer returns and with 500 when it
  throws, \<^verbatim>\<open>NO_RESERVATION\<close> with 404, \<^verbatim>\<open>NO_PERMISSION\<close> with 403, and every other code
  with 400; a 200 is sent only for \<^verbatim>\<open>CREATED_CANCELED\<close>. In \<^verbatim>\<open>GET /c/:id\<close>:
  \<^verbatim>\<open>CREATED_ACTIVE\<close> is answered with 200 when the mailer returns and with 500 when it
  throws, and every other code, recognised or not, with 200.
\<close>

theorem classification_by_route:
  assumes "w_db w = Inr row" and "result_or_default row = result"
    and "js_get result ''code'' = code"
    and "snd (sendReservationEmail (w_mail w) (Some result)) = sent"
  shows "(cleared e l w req \<longrightarrow>
            (code = Some (JS ''CREATED_ACTIVE'') \<or> code = Some (JS ''CREATED_PENDING'') \<longrightarrow>
               snd (createReservation e l w req) =
                 (case sent of
                    Inr u \<Rightarrow> \<lparr>status = 200, body = ResultBody result\<rparr>
                  | Inl ex \<Rightarrow> \<lparr>status = 500, body = ServerErrorBody\<rparr>))
          \<and> (code = Some (JS ''DUPLICATE_SAME_DATETIME'') \<longrightarrow>
               snd (createReservation e l w req) = \<lparr>status = 409, body = ResultBody result\<rparr>)
          \<and> (code = Some (JS ''PERFORMANCE_THEATER_NOT_FOUND'')
              \<or> code = Some (JS ''PERFORMANCE_DATETIME_NOT_FOUND'') \<longrightarrow>
               snd (createReservation e l w req) = \<lparr>status = 404, body = ResultBody result\<rparr>)
          \<and> (code \<notin> {Some (JS ''CREATED_ACTIVE''), Some (JS ''CREATED_PENDING''),
                       Some (JS ''DUPLICATE_SAME_DATETIME''),
                       Some (JS ''PERFORMANCE_THEATER_NOT_FOUND''),
                       Some (JS ''PERFORMANCE_DATETIME_NOT_FOUND'')} \<longrightarrow>
               snd (createReservation e l w req) = \<lparr>status = 400, body = ResultBody result\<rparr>)
          \<and> (status (snd (createReservation e l w req)) = 200 \<longrightarrow>
               code = Some (JS ''CREATED_ACTIVE'') \<or> code = Some (JS ''CREATED_PENDING'')))
       \<and> (code = Some (JS ''CREATED_CANCELED'') \<longrightarrow>
            snd (cancelReservation w req') =
              (case sent of
                 Inr u \<Rightarrow> \<lparr>status = 200, body = ResultBody result\<rparr>
               | Inl ex \<Rightarrow> \<lparr>status = 500, body = ServerErrorBody\<rparr>))
       \<and> (code = Some (JS ''NO_RESERVATION'') \<longrightarrow>
            snd (cancelReservation w req') = \<lparr>status = 404, body = ResultBody result\<rparr>)
       \<and> (code = Some (JS ''NO_PERMISSION'') \<longrightarrow>
            snd (cancelReservation w req') = \<lparr>status = 403, body = ResultBody result\<rparr>)
       \<and> (code \<notin> {Some (JS ''CREATED_CANCELED''), Some (JS ''NO_RESERVATION''),
                    Some (JS ''NO_PERMISSION'')} \<longrightarrow>
            snd (cancelReservation w req') = \<lparr>status = 400, body = ResultBody result\<rparr>)
       \<and> (status (snd (cancelReservation w req')) = 200 \<longrightarrow>
            code = Some (JS ''CREATED_CANCELED''))
       \<and> (code = Some (JS ''CREATED_ACTIVE'') \<longrightarrow>
            snd (confirmReservation w req') =
              (case sent of
                 Inr u \<Rightarrow> \<lparr>status = 200, body = ResultBody result\<rparr>
               | Inl ex \<Rightarrow> \<lparr>status = 500, body = ServerErrorBody\<rparr>))
       \<and> (code \<noteq> Some (JS ''CREATED_ACTIVE'') \<longrightarrow>
            snd (confirmReservation w req') = \<lparr>status = 200, body = ResultBody result\<rparr>)"
proof -
  have create: "snd (createReservation e l w req) =
      (case snd (create_respond (w_mail w) result) of Inl ex \<Rightarrow> server_error | Inr r \<Rightarrow> r)"
    if "cleared e l w req"
    using create_response_cleared [OF that assms(1)] assms(2) by simp
  have cancel: "snd (cancelReservation w req') =
      (case snd (cancel_respond (w_mail w) result) of Inl ex \<Rightarrow> server_error | Inr r \<Rightarrow> r)"
    using cancel_response [OF assms(1)] assms(2) by simp
  have confirm: "snd (confirmReservation w req') =
      (case snd (confirm_respond (w_mail w) result) of Inl ex \<Rightarrow> server_error | Inr r \<Rightarrow> r)"
    using confirm_response [OF assms(1)] assms(2) by simp
  have a: "cleared e l w req \<longrightarrow>
            (code = Some (JS ''CREATED_ACTIVE'') \<or> code = Some (JS ''CREATED_PENDING'') \<longrightarrow>
               snd (createReservation e l w req) =
                 (case sent of
                    Inr u \<Rightarrow> \<lparr>status = 200, body = ResultBody result\<rparr>
                  | Inl ex \<Rightarrow> \<lparr>status = 500, body = ServerErrorBody\<rparr>))
          \<and> (code = Some (JS ''DUPLICATE_SAME_DATETIME'') \<longrightarrow>
               snd (createReservation e l w req) = \<lparr>status = 409, body = ResultBody result\<rparr>)
          \<and> (code = Some (JS ''PERFORMANCE_THEATER_NOT_FOUND'')
              \<or> code = Some (JS ''PERFORMANCE_DATETIME_NOT_FOUND'') \<longrightarrow>
               snd (createReservation e l w req) = \<lparr>status = 404, body = ResultBody result\<rparr>)
          \<and> (code \<notin> {Some (JS ''CREATED_ACTIVE''), Some (JS ''CREATED_PENDING''),
                       Some (JS ''DUPLICATE_SAME_DATETIME''),
                       Some (JS ''PERFORMANCE_THEATER_NOT_FOUND''),
                       Some (JS ''PERFORMANCE_DATETIME_NOT_FOUND'')} \<longrightarrow>
               snd (createReservation e l w req) = \<lparr>status = 400, body = ResultBody result\<rparr>)
          \<and> (status (snd (createReservation e l w req)) = 200 \<longrightarrow>
               code = Some (JS ''CREATED_ACTIVE'') \<or> code = Some (JS ''CREATED_PENDING''))"
    using create assms(3,4)
    by (auto simp: create_respond_outcome server_error_def split: sum.splits)
  have b: "(code = Some (JS ''CREATED_CANCELED'') \<longrightarrow>
            snd (cancelReservation w req') =
              (case sent of
                 Inr u \<Rightarrow> \<lparr>status = 200, body = ResultBody result\<rparr>
               | Inl ex \<Rightarrow> \<lparr>status = 500, body = ServerErrorBody\<rparr>))
       \<and> (code = Some (JS ''NO_RESERVATION'') \<longrightarrow>
            snd (cancelReservation w req') = \<lparr>status = 404, body = ResultBody result\<rparr>)
       \<and> (code = Some (JS ''NO_PERMISSION'') \<longrightarrow>
            snd (cancelReservation w req') = \<lparr>status = 403, body = ResultBody result\<rparr>)
       \<and> (code \<notin> {Some (JS ''CREATED_CANCELED''), Some (JS ''NO_RESERVATION''),
                    Some (JS ''NO_PERMISSION'')} \<longrightarrow>
            snd (cancelReservation w req') = \<lparr>status = 400, body = ResultBody result\<rparr>)
       \<and> (status (snd (cancelReservation w req')) = 200 \<longrightarrow>
            code = Some (JS ''CREATED_CANCELED''))"
    using cancel assms(3,4)
    by (auto simp: cancel_respond_outcome server_error_def split: sum.splits)
  have c: "(code = Some (JS ''CREATED_ACTIVE'') \<longrightarrow>
            snd (confirmReservation w req') =
              (case sent of
                 Inr u \<Rightarrow> \<lparr>status = 200, body = ResultBody result\<rparr>
               | Inl ex \<Rightarrow> \<lparr>status = 500, body = ServerErrorBody\<rparr>))
       \<and> (code \<noteq> Some (JS ''CREATED_ACTIVE'') \<longrightarrow>
            snd (confirmReservation w req') = \<lparr>status = 200, body = ResultBody result\<rparr>)"
    using confirm assms(3,4)
    by (auto simp: confirm_respond_outcome server_error_def split: sum.splits)
  from a b c show ?thesis
    by blast
qed

theorem classification_by_route_witness:
  "cleared sample_env sample_libs
      (world_with silent_net (Inr (Some (bare_outcome ''DUPLICATE_SAME_DATETIME''))) good_mail_env)
      sample_request
   \<and> snd (createReservation sample_env sample_libs
        (world_with silent_net (Inr (Some (bare_outcome ''DUPLICATE_SAME_DATETIME''))) good_mail_env)
        sample_request)
       = \<lparr>status = 409, body = ResultBody (bare_outcome ''DUPLICATE_SAME_DATETIME'')\<rparr>
   \<and> snd (createReservation sample_env sample_libs
        (world_with silent_net (Inr (Some (bare_outcome ''NO_PERMISSION''))) good_mail_env)
        sample_request)
       = \<lparr>status = 400, body = ResultBody (bare_outcome ''NO_PERMISSION'')\<rparr>
   \<and> snd (cancelReservation
        (world_with silent_net (Inr (Some (bare_outcome ''NO_PERMISSION''))) good_mail_env)
        sample_request)
       = \<lparr>status = 403, body = ResultBody (bare_outcome ''NO_PERMISSION'')\<rparr>
   \<and> snd (cancelReservation
        (world_with silent_net (Inr (Some (bare_outcome ''NO_RESERVATION''))) good_mail_env)
        sample_request)
       = \<lparr>status = 404, body = ResultBody (bare_outcome ''NO_RESERVATION'')\<rparr>
   \<and> snd (cancelReservation
        (world_with silent_net (Inr (Some (bare_outcome ''NO_SUCH_CODE''))) good_mail_env)
        sample_request)
       = \<lparr>status = 400, body = ResultBody (bare_outcome ''NO_SUCH_CODE'')\<rparr>
   \<and> snd (confirmReservation
        (world_with silent_net (Inr (Some (bare_outcome ''NO_SUCH_CODE''))) good_mail_env)
        sample_request)
       = \<lparr>status = 200, body = ResultBody (bare_outcome ''NO_SUCH_CODE'')\<rparr>
   \<and> snd (sendReservationEmail (good_mail_env\<lparr>smtp_ok := False\<rparr>)
            (Some (outcome ''CREATED_ACTIVE''))) = Inl (External ''smtp'')
   \<and> snd (confirmReservation
        (world_with silent_net (Inr (Some (outcome ''CREATED_ACTIVE'')))
           (good_mail_env\<lparr>smtp_ok := False\<rparr>))
        sample_request)
       = \<lparr>status = 500, body = ServerErrorBody\<rparr>"
proof -
  let ?w = "\<lambda>c. world_with silent_net (Inr (Some (bare_outcome c))) good_mail_env"
  let ?bad = "good_mail_env\<lparr>smtp_ok := False\<rparr>"
  let ?wa = "world_with silent_net (Inr (Some (outcome ''CREATED_ACTIVE''))) ?bad"
  have cl: "cleared sample_env sample_libs (?w c) sample_request" for c
    by (simp add: cleared_def schema_defs sample_defs js_trim_def js_whitespace_def)
  have db: "w_db (?w c) = Inr (Some (bare_outcome c))" for c
    by (simp add: world_with_def)
  have res: "result_or_default (Some (bare_outcome c)) = bare_outcome c" for c
    by (simp add: result_or_default_def bare_outcome_def)
  have code: "js_get (bare_outcome c) ''code'' = Some (JS c)" for c
    by (simp add: bare_outcome_def)
  have dba: "w_db ?wa = Inr (Some (outcome ''CREATED_ACTIVE''))"
    and mea: "w_mail ?wa = ?bad"
    by (simp_all add: world_with_def)
  have resa: "result_or_default (Some (outcome ''CREATED_ACTIVE'')) = outcome ''CREATED_ACTIVE''"
    by (simp add: result_or_default_def outcome_def)
  have codea: "js_get (outcome ''CREATED_ACTIVE'') ''code'' = Some (JS ''CREATED_ACTIVE'')"
    by (simp add: outcome_def)
  have sent: "snd (sendReservationEmail ?bad (Some (outcome ''CREATED_ACTIVE'')))
                = Inl (External ''smtp'')"
    by (simp add: mailer_defs sample_defs)
  note t = classification_by_route [OF db res code refl,
      where e = sample_env and l = sample_libs and req = sample_request
        and req' = sample_request]
  note ta = classification_by_route [OF dba resa codea, unfolded mea, OF sent,
      where e = sample_env and l = sample_libs and req = sample_request
        and req' = sample_request]
  have "snd (createReservation sample_env sample_libs (?w ''DUPLICATE_SAME_DATETIME'')
          sample_request)
          = \<lparr>status = 409, body = ResultBody (bare_outcome ''DUPLICATE_SAME_DATETIME'')\<rparr>"
    using t [of "''DUPLICATE_SAME_DATETIME''"] cl by simp
  moreover
  have "snd (createReservation sample_env sample_libs (?w ''NO_PERMISSION'') sample_request)
          = \<lparr>status = 400, body = ResultBody (bare_outcome ''NO_PERMISSION'')\<rparr>"
    and "snd (cancelReservation (?w ''NO_PERMISSION'') sample_request)
          = \<lparr>status = 403, body = ResultBody (bare_outcome ''NO_PERMISSION'')\<rparr>"
    using t [of "''NO_PERMISSION''"] cl by simp_all
  moreover
  have "snd (cancelReservation (?w ''NO_RESERVATION'') sample_request)
          = \<lparr>status = 404, body = ResultBody (bare_outcome ''NO_RESERVATION'')\<rparr>"
    using t [of "''NO_RESERVATION''"] by simp
  moreover
  have "snd (cancelReservation (?w ''NO_SUCH_CODE'') sample_request)
          = \<lparr>status = 400, body = ResultBody (bare_outcome ''NO_SUCH_CODE'')\<rparr>"
    and "snd (confirmReservation (?w ''NO_SUCH_CODE'') sample_request)
          = \<lparr>status = 200, body = ResultBody (bare_outcome ''NO_SUCH_CODE'')\<rparr>"
    using t [of "''NO_SUCH_CODE''"] by simp_all
  moreover
  have "snd (confirmReservation ?wa sample_request) = \<lparr>status = 500, body = ServerErrorBody\<rparr>"
    using ta by simp
  ultimately show ?thesis
    using cl [of "''DUPLICATE_SAME_DATETIME''"] sent by simp
qed

section \<open>The mail of an outcome code\<close>







end
